theory Spec2Isabelle
  imports Complex_Main
begin

section \<open>Data model of \<open>streamlit_app.py\<close>\<close>

text \<open>
  A Python \<open>str\<close> is a sequence of Unicode code points: \<open>len\<close> counts code points and
  a slice \<open>s[:50]\<close> keeps the first 50 of them. A code point is a natural number here
  (the emoji of the confidence line are single code points above the byte range).
\<close>

type_synonym pystr = "nat list"

abbreviation py :: "string \<Rightarrow> pystr" where
  "py s \<equiv> map of_char s"

text \<open>
  \<open>HumanMessage(content=...)\<close> and \<open>AIMessage(content=...)\<close> of langchain. The script
  only ever builds them and reads \<open>content\<close>; it never mutates one.
\<close>

datatype message = HumanMessage pystr | AIMessage pystr

fun content :: "message \<Rightarrow> pystr" where
  "content (HumanMessage c) = c"
| "content (AIMessage c) = c"

text \<open>
  Python lists are mutable objects: \<open>st.session_state.messages.append(m)\<close> changes the
  list object in place and \<open>xs.copy()\<close> builds a new object. A message list is
  therefore an address into a store of list objects; \<open>next_addr\<close> is the first address
  never handed out.
\<close>

type_synonym addr = nat

text \<open>
  One entry of \<open>st.session_state.chat_history\<close>: the dict
  \<open>{id, title, messages, thread_id, count, timestamp}\<close> of lines 96-103. The keys carry
  the prefix \<open>chat_\<close> because the session has fields of the same names.
\<close>

record chat =
  chat_id :: pystr
  chat_title :: pystr
  chat_messages :: addr
  chat_thread_id :: "pystr option"
  chat_count :: int
  chat_timestamp :: real

text \<open>\<open>st.session_state\<close> (lines 23-32) together with the store of list objects.\<close>

record session =
  heap :: "addr \<Rightarrow> message list"
  next_addr :: addr
  messages :: addr
  thread_id :: "pystr option"
  conversation_count :: int
  chat_history :: "chat list"
  active_chat_id :: "pystr option"

text \<open>The message list the session currently works on, read through the store.\<close>

definition working_messages :: "session \<Rightarrow> message list" where
  "working_messages s = heap s (messages s)"

text \<open>The message list stored in a saved chat, read through the store.\<close>

definition stored_messages :: "session \<Rightarrow> chat \<Rightarrow> message list" where
  "stored_messages s c = heap s (chat_messages c)"

text \<open>
  Python truthiness of a value that is \<open>None\<close> or a \<open>str\<close>: \<open>None\<close> and the empty string
  are false. The script tests \<open>thread_id\<close>, \<open>active_chat_id\<close> and \<open>first_message\<close> this way.
\<close>

definition truthy :: "pystr option \<Rightarrow> bool" where
  "truthy v = (case v of None \<Rightarrow> False | Some x \<Rightarrow> x \<noteq> [])"

text \<open>Building a new list object: a literal \<open>[]\<close> or the result of \<open>.copy()\<close>.\<close>

definition alloc :: "message list \<Rightarrow> session \<Rightarrow> addr \<times> session" where
  "alloc xs s =
     (next_addr s, s\<lparr>heap := (heap s)(next_addr s := xs), next_addr := Suc (next_addr s)\<rparr>)"

text \<open>Lines 23-32, run on a session state that has none of the keys yet.\<close>

definition init_session :: session where
  "init_session =
     \<lparr>heap = (\<lambda>_. []), next_addr = 1, messages = 0, thread_id = None,
      conversation_count = 0, chat_history = [], active_chat_id = None\<rparr>"

section \<open>The sidebar\<close>

text \<open>
  The four assignments that start a new chat (lines 107-110, 141-144, 166-169):
  \<open>messages = []\<close> builds a new empty list object.
\<close>

definition start_new_chat :: "session \<Rightarrow> session" where
  "start_new_chat s =
     (let (a, s1) = alloc [] s
      in s1\<lparr>messages := a, thread_id := None, conversation_count := 0,
             active_chat_id := None\<rparr>)"

text \<open>Lines 76-80: the content of the first \<open>HumanMessage\<close>, \<open>None\<close> when there is none.\<close>

fun first_message :: "message list \<Rightarrow> pystr option" where
  "first_message [] = None"
| "first_message (HumanMessage c # ms) = Some c"
| "first_message (AIMessage c # ms) = first_message ms"

text \<open>
  Line 82:
  \<^verbatim>\<open>first_message[:50] + "..." if first_message and len(first_message) > 50 else (first_message or "New Chat")\<close>
\<close>

definition chat_title_of :: "pystr option \<Rightarrow> pystr" where
  "chat_title_of fm =
     (case fm of
        None \<Rightarrow> py ''New Chat''
      | Some f \<Rightarrow>
          (if f \<noteq> [] \<and> length f > 50 then take 50 f @ py ''...''
           else if f \<noteq> [] then f else py ''New Chat''))"

text \<open>
  Lines 87-93: the first chat whose id is the active one gets the copy of the working
  messages (the list object at \<open>a\<close>), the thread id and the count; its title, its
  timestamp and its place in the list stay. The second component is \<open>chat_exists\<close>.
\<close>

fun update_existing :: "pystr \<Rightarrow> addr \<Rightarrow> pystr option \<Rightarrow> int \<Rightarrow> chat list \<Rightarrow> chat list \<times> bool" where
  "update_existing aid a tid n [] = ([], False)"
| "update_existing aid a tid n (c # cs) =
     (if chat_id c = aid
      then (c\<lparr>chat_messages := a, chat_thread_id := tid, chat_count := n\<rparr> # cs, True)
      else (let (cs', b) = update_existing aid a tid n cs in (c # cs', b)))"

text \<open>
  Lines 75-104, the save of the current chat inside the New Chat handler. \<open>u\<close> is the
  value of \<open>str(uuid.uuid4())\<close> and \<open>t\<close> that of \<open>time.time()\<close>. The copy of the message
  list is one new list object on either path: the source builds it in the loop when
  the active chat is found and in the new dict otherwise.
\<close>

definition save_current_chat :: "pystr \<Rightarrow> real \<Rightarrow> session \<Rightarrow> session" where
  "save_current_chat u t s =
     (if working_messages s \<noteq> [] then
        (let chat_title = chat_title_of (first_message (working_messages s));
             (a, s1) = alloc (working_messages s) s;
             (hist, chat_exists) =
               (case active_chat_id s of
                  None \<Rightarrow> (chat_history s, False)
                | Some aid \<Rightarrow>
                    (if aid \<noteq> []
                     then update_existing aid a (thread_id s) (conversation_count s)
                            (chat_history s)
                     else (chat_history s, False)))
         in if \<not> chat_exists \<and> working_messages s \<noteq> [] then
              s1\<lparr>chat_history :=
                   \<lparr>chat_id = u, chat_title = chat_title, chat_messages = a,
                    chat_thread_id = thread_id s, chat_count = conversation_count s,
                    chat_timestamp = t\<rparr> # hist\<rparr>
            else s1\<lparr>chat_history := hist\<rparr>)
      else s)"

text \<open>Lines 73-111: the New Chat button.\<close>

definition new_chat :: "pystr \<Rightarrow> real \<Rightarrow> session \<Rightarrow> session" where
  "new_chat u t s = start_new_chat (save_current_chat u t s)"

text \<open>
  Lines 118-134: the button with key \<open>chat_<id>\<close>. The loop reaches the first chat of
  that id, loads it and reruns the script; there is no such button, and so no result,
  when no chat has the id.
\<close>

definition load_chat :: "pystr \<Rightarrow> session \<Rightarrow> session option" where
  "load_chat i s =
     (case find (\<lambda>c. chat_id c = i) (chat_history s) of
        None \<Rightarrow> None
      | Some c \<Rightarrow>
          (let (a, s1) = alloc (stored_messages s c) s
           in Some (s1\<lparr>messages := a, thread_id := chat_thread_id c,
                       conversation_count := chat_count c,
                       active_chat_id := Some (chat_id c)\<rparr>)))"

text \<open>\<open>chat_history.pop(idx)\<close> for the index of the first chat with the id.\<close>

fun pop_chat :: "pystr \<Rightarrow> chat list \<Rightarrow> chat list" where
  "pop_chat i [] = []"
| "pop_chat i (c # cs) = (if chat_id c = i then cs else c # pop_chat i cs)"

text \<open>
  Lines 136-145: the button with key \<open>del_<id>\<close>. No chat of that id means no such
  button: nothing runs.
\<close>

definition delete_chat :: "pystr \<Rightarrow> session \<Rightarrow> session" where
  "delete_chat i s =
     (if i \<in> set (map chat_id (chat_history s)) then
        (let s1 = s\<lparr>chat_history := pop_chat i (chat_history s)\<rparr>
         in if Some i = active_chat_id s then start_new_chat s1 else s1)
      else s)"

text \<open>Lines 164-170: the Clear Current Chat button exists only while there are messages.\<close>

definition clear_current_chat :: "session \<Rightarrow> session" where
  "clear_current_chat s =
     (if working_messages s \<noteq> [] then start_new_chat s else s)"

section \<open>The chat input\<close>

text \<open>
  What \<open>query_rag\<close> gives back: the parsed JSON object, read by the script through
  \<open>result.get\<close> with a default for each key, so each key may be missing. A value that
  is there has the type the service declares for it: the answer and the thread id are
  strings, the confidence is a number, taken at its exact value (the comparisons with
  8 and 6 are exact).
\<close>

record response =
  r_answer :: "pystr option"
  r_confidence :: "real option"
  r_thread_id :: "pystr option"

text \<open>The two \<open>except\<close> branches of lines 251-256.\<close>

datatype error = HTTPError pystr | OtherException pystr

text \<open>Lines 217-225.\<close>

definition confidence_text :: "real \<Rightarrow> pystr" where
  "confidence_text confidence =
     (if confidence \<ge> 8 then py ''High''
      else if confidence \<ge> 6 then py ''Medium''
      else py ''Low'')"

definition confidence_emoji :: "real \<Rightarrow> pystr" where
  "confidence_emoji confidence =
     (if confidence \<ge> 8 then [128994]
      else if confidence \<ge> 6 then [128993]
      else [128308])"

text \<open>Lines 210-211: the defaults of \<open>result.get\<close>.\<close>

definition answer_of :: "response \<Rightarrow> pystr" where
  "answer_of r = (case r_answer r of None \<Rightarrow> py ''No answer received'' | Some a \<Rightarrow> a)"

definition confidence_of :: "response \<Rightarrow> real" where
  "confidence_of r = (case r_confidence r of None \<Rightarrow> 0 | Some c \<Rightarrow> c)"

text \<open>
  Lines 214-227. \<open>fmt\<close> stands for the float formatting \<open>{confidence:.1f}\<close>, which the
  model does not compute.
\<close>

definition full_response :: "(real \<Rightarrow> pystr) \<Rightarrow> response \<Rightarrow> pystr" where
  "full_response fmt r =
     answer_of r @ [10, 10] @ py ''*Confidence: '' @ confidence_emoji (confidence_of r) @
     py '' '' @ confidence_text (confidence_of r) @ py '' ('' @ fmt (confidence_of r) @
     py ''/10)*''"

text \<open>\<open>st.session_state.messages.append(m)\<close>: the list object changes in place.\<close>

definition append_message :: "message \<Rightarrow> session \<Rightarrow> session" where
  "append_message m s = s\<lparr>heap := (heap s)(messages s := heap s (messages s) @ [m])\<rparr>"

text \<open>
  Lines 35-54 and 203: the call the handler makes, \<open>None\<close> when it makes none. The
  thread id goes into the query parameters only when it is truthy.
\<close>

record request =
  question :: pystr
  max_iterations :: nat
  params_thread_id :: "pystr option"

definition query_request :: "pystr \<Rightarrow> session \<Rightarrow> request option" where
  "query_request prompt s =
     (if prompt \<noteq> [] then
        Some \<lparr>question = prompt, max_iterations = 3,
              params_thread_id = (if truthy (thread_id s) then thread_id s else None)\<rparr>
      else None)"

text \<open>
  Lines 184-256. \<open>prompt\<close> is the value of \<open>st.chat_input\<close> (the empty string also stands
  for \<open>None\<close>, nothing submitted: both are falsy), \<open>outcome\<close> what
  \<open>asyncio.run(query_rag(...))\<close> did (an exception or the parsed response) and \<open>u\<close> the
  value of \<open>str(uuid.uuid4())\<close>.
\<close>

definition submit :: "(real \<Rightarrow> pystr) \<Rightarrow> pystr \<Rightarrow> error + response \<Rightarrow> pystr \<Rightarrow> session \<Rightarrow> session" where
  "submit fmt prompt outcome u s =
     (if prompt \<noteq> [] then
        (let s1 = append_message (HumanMessage prompt) s
         in case outcome of
              Inl e \<Rightarrow> s1
            | Inr result \<Rightarrow>
                (let s2 = (if \<not> truthy (thread_id s1)
                           then s1\<lparr>thread_id :=
                                  Some (case r_thread_id result of None \<Rightarrow> u | Some tid \<Rightarrow> tid)\<rparr>
                           else s1);
                     s3 = s2\<lparr>conversation_count := conversation_count s2 + 1\<rparr>
                 in append_message (AIMessage (full_response fmt result)) s3))
      else s)"

section \<open>Runs of the script\<close>

text \<open>One run of the script handles one interaction.\<close>

datatype event =
    NewChat pystr real
  | LoadChat pystr
  | DeleteChat pystr
  | ClearChat
  | ChatInput pystr "error + response" pystr

fun step :: "(real \<Rightarrow> pystr) \<Rightarrow> event \<Rightarrow> session \<Rightarrow> session" where
  "step fmt (NewChat u t) s = new_chat u t s"
| "step fmt (LoadChat i) s = (case load_chat i s of None \<Rightarrow> s | Some s' \<Rightarrow> s')"
| "step fmt (DeleteChat i) s = delete_chat i s"
| "step fmt ClearChat s = clear_current_chat s"
| "step fmt (ChatInput prompt outcome u) s = submit fmt prompt outcome u s"

fun run :: "(real \<Rightarrow> pystr) \<Rightarrow> event list \<Rightarrow> session \<Rightarrow> session" where
  "run fmt [] s = s"
| "run fmt (e # es) s = run fmt es (step fmt e s)"

text \<open>
  A sequence of submissions to the chat input on one working thread: each is the prompt,
  what the query did, and the uuid the script would draw.
\<close>

type_synonym submission = "pystr \<times> (error + response) \<times> pystr"

fun submit_all :: "(real \<Rightarrow> pystr) \<Rightarrow> submission list \<Rightarrow> session \<Rightarrow> session" where
  "submit_all fmt [] s = s"
| "submit_all fmt ((prompt, outcome, u) # xs) s =
     submit_all fmt xs (submit fmt prompt outcome u s)"

text \<open>
  A submission whose query returned, and one whose query raised. A falsy prompt is
  neither: the handler does not run.
\<close>

fun successful :: "submission \<Rightarrow> bool" where
  "successful (prompt, outcome, u) =
     (prompt \<noteq> [] \<and> (case outcome of Inl e \<Rightarrow> False | Inr r \<Rightarrow> True))"

fun failed :: "submission \<Rightarrow> bool" where
  "failed (prompt, outcome, u) =
     (prompt \<noteq> [] \<and> (case outcome of Inl e \<Rightarrow> True | Inr r \<Rightarrow> False))"

definition successful_submits :: "submission list \<Rightarrow> nat" where
  "successful_submits xs = length (filter successful xs)"

definition failed_submits :: "submission list \<Rightarrow> nat" where
  "failed_submits xs = length (filter failed xs)"

text \<open>
  How often, along a sequence of submissions, the thread id goes from falsy to truthy
  (the test of line 241 is the truthiness of \<open>st.session_state.thread_id\<close>).
\<close>

fun token_sets :: "(real \<Rightarrow> pystr) \<Rightarrow> submission list \<Rightarrow> session \<Rightarrow> nat" where
  "token_sets fmt [] s = 0"
| "token_sets fmt ((prompt, outcome, u) # xs) s =
     (if \<not> truthy (thread_id s) \<and> truthy (thread_id (submit fmt prompt outcome u s))
      then 1 else 0) +
     token_sets fmt xs (submit fmt prompt outcome u s)"

text \<open>
  The id of the chat that \<open>save_current_chat\<close> writes the working thread to: the active
  id when the loop of lines 87-93 finds it, the new uuid otherwise.
\<close>

definition saved_chat_id :: "pystr \<Rightarrow> session \<Rightarrow> pystr" where
  "saved_chat_id u s =
     (case active_chat_id s of
        None \<Rightarrow> u
      | Some aid \<Rightarrow>
          (if aid \<noteq> [] \<and> aid \<in> set (map chat_id (chat_history s)) then aid else u))"

text \<open>
  The specification's wording of the prompt guard, for comparison with the guard of
  line 184: the question with leading and trailing whitespace removed (the ASCII
  whitespace characters tab, line feed, vertical tab, form feed, carriage return and
  space).
\<close>

definition is_space :: "nat \<Rightarrow> bool" where
  "is_space c = (c \<in> {9, 10, 11, 12, 13, 32})"

definition spec_trim :: "pystr \<Rightarrow> pystr" where
  "spec_trim q = rev (dropWhile is_space (rev (dropWhile is_space q)))"

section \<open>Invariants of the store\<close>

text \<open>
  Every list object in use has been handed out, and the working list is not the list
  of any saved chat (the script always stores and loads a \<open>.copy()\<close>).
\<close>

definition store_ok :: "session \<Rightarrow> bool" where
  "store_ok s =
     (messages s < next_addr s \<and>
      (\<forall>c \<in> set (chat_history s).
         chat_messages c < next_addr s \<and> chat_messages c \<noteq> messages s))"

text \<open>No saved chat has an empty message list.\<close>

definition saved_nonempty :: "session \<Rightarrow> bool" where
  "saved_nonempty s = (\<forall>c \<in> set (chat_history s). stored_messages s c \<noteq> [])"

text \<open>No list object holds a \<open>HumanMessage\<close> with empty content.\<close>

definition human_nonempty :: "session \<Rightarrow> bool" where
  "human_nonempty s = (\<forall>a. HumanMessage [] \<notin> set (heap s a))"

text \<open>
  Every uuid that the New Chat handler draws along a run is new: it is the id of no
  saved chat at that moment.
\<close>

fun uuids_fresh :: "(real \<Rightarrow> pystr) \<Rightarrow> event list \<Rightarrow> session \<Rightarrow> bool" where
  "uuids_fresh fmt [] s = True"
| "uuids_fresh fmt (e # es) s =
     ((case e of NewChat u t \<Rightarrow> u \<notin> set (map chat_id (chat_history s)) | _ \<Rightarrow> True) \<and>
      uuids_fresh fmt es (step fmt e s))"

text \<open>
  A message list that is empty or starts with a user message. Every list object of
  the store is one: the first append to an empty list is that of line 187.
\<close>

fun human_first :: "message list \<Rightarrow> bool" where
  "human_first [] = True"
| "human_first (HumanMessage c # ms) = True"
| "human_first (AIMessage c # ms) = False"

definition heads_ok :: "session \<Rightarrow> bool" where
  "heads_ok s = (\<forall>a. human_first (heap s a))"

text \<open>
  The working messages continue the stored messages of the active chat: they were
  loaded from it and have only been appended to since.
\<close>

definition active_prefix :: "session \<Rightarrow> bool" where
  "active_prefix s =
     (case active_chat_id s of
        None \<Rightarrow> True
      | Some aid \<Rightarrow>
          (case find (\<lambda>c. chat_id c = aid) (chat_history s) of
             None \<Rightarrow> True
           | Some c \<Rightarrow> (\<exists>zs. working_messages s = stored_messages s c @ zs)))"

text \<open>The title of every saved chat is the one derived from the messages it holds.\<close>

definition titles_ok :: "session \<Rightarrow> bool" where
  "titles_ok s =
     (\<forall>d \<in> set (chat_history s).
        chat_title d = chat_title_of (first_message (stored_messages s d)))"

section \<open>Concrete data for the example runs\<close>

text \<open>
  A formatting function and a response to run the script on; no result below depends
  on which formatting function is chosen.
\<close>

definition sample_fmt :: "real \<Rightarrow> pystr" where
  "sample_fmt c = py ''9.0''"

definition sample_response :: response where
  "sample_response =
     \<lparr>r_answer = Some (py ''ok''), r_confidence = Some 9, r_thread_id = Some (py ''abc'')\<rparr>"

text \<open>One successful question on the empty session.\<close>

definition sample_events :: "event list" where
  "sample_events = [ChatInput (py ''hi'') (Inr sample_response) (py ''u1'')]"

text \<open>The same, then the New Chat button: one saved chat and an empty working thread.\<close>

definition sample_saved :: "event list" where
  "sample_saved = sample_events @ [NewChat (py ''id1'') 0]"

text \<open>The same, then the saved chat is loaded again: it is the active chat.\<close>

definition sample_loaded :: "event list" where
  "sample_loaded = sample_saved @ [LoadChat (py ''id1'')]"

text \<open>A question whose query fails.\<close>

definition sample_failure :: submission where
  "sample_failure = (py ''q'', Inl (HTTPError []), [])"

text \<open>A question of 64 characters, asked on the empty session; its query fails.\<close>

definition long_question :: pystr where
  "long_question = py ''Tell me about the Acme SOW deliverables and milestones in detail''"

definition sample_long :: "event list" where
  "sample_long = [ChatInput long_question (Inl (HTTPError [])) []]"

text \<open>A response whose thread id is the empty string, and one with another thread id.\<close>

definition empty_token_response :: response where
  "empty_token_response =
     \<lparr>r_answer = Some (py ''ok''), r_confidence = Some 9, r_thread_id = Some []\<rparr>"

definition other_response :: response where
  "other_response =
     \<lparr>r_answer = Some (py ''ok''), r_confidence = Some 9, r_thread_id = Some (py ''xyz'')\<rparr>"

text \<open>A response without the confidence key.\<close>

definition no_confidence_response :: response where
  "no_confidence_response =
     \<lparr>r_answer = Some (py ''ok''), r_confidence = None, r_thread_id = None\<rparr>"


text \<open>
  A question whose query fails is saved as a chat; the chat is loaded and a second
  question is answered, with a thread id.
\<close>

definition reload_events :: "event list" where
  "reload_events =
     [ChatInput (py ''q'') (Inl (HTTPError [])) [], NewChat (py ''id1'') 0,
      LoadChat (py ''id1''), ChatInput (py ''hi'') (Inr sample_response) (py ''u1'')]"

text \<open>Two questions in a row, the first of 64 characters; both queries fail.\<close>

definition two_questions :: "event list" where
  "two_questions =
     [ChatInput long_question (Inl (HTTPError [])) [],
      ChatInput (py ''second'') (Inl (HTTPError [])) []]"

section \<open>Basic facts about the chat input\<close>

lemma working_messages_append [simp]:
  "working_messages (append_message m s) = working_messages s @ [m]"
  by (simp add: working_messages_def append_message_def)

lemma append_message_fields [simp]:
  "thread_id (append_message m s) = thread_id s"
  "conversation_count (append_message m s) = conversation_count s"
  "chat_history (append_message m s) = chat_history s"
  "active_chat_id (append_message m s) = active_chat_id s"
  "messages (append_message m s) = messages s"
  "next_addr (append_message m s) = next_addr s"
  by (simp_all add: append_message_def)

lemma submit_empty [simp]: "submit fmt [] outcome u s = s"
  by (simp add: submit_def)

lemma submit_Inl:
  "prompt \<noteq> [] \<Longrightarrow> submit fmt prompt (Inl e) u s = append_message (HumanMessage prompt) s"
  by (simp add: submit_def)

lemma submit_Inr_messages:
  "prompt \<noteq> [] \<Longrightarrow>
   working_messages (submit fmt prompt (Inr r) u s) =
     working_messages s @ [HumanMessage prompt, AIMessage (full_response fmt r)]"
  by (simp add: submit_def Let_def working_messages_def append_message_def)

lemma submit_history [simp]: "chat_history (submit fmt prompt outcome u s) = chat_history s"
  by (simp add: submit_def Let_def split: sum.splits)

lemma submit_active [simp]: "active_chat_id (submit fmt prompt outcome u s) = active_chat_id s"
  by (simp add: submit_def Let_def split: sum.splits)

lemma submit_address [simp]: "messages (submit fmt prompt outcome u s) = messages s"
  by (simp add: submit_def Let_def split: sum.splits)

lemma submit_next_addr [simp]: "next_addr (submit fmt prompt outcome u s) = next_addr s"
  by (simp add: submit_def Let_def split: sum.splits)

lemma submit_heap_other:
  "a \<noteq> messages s \<Longrightarrow> heap (submit fmt prompt outcome u s) a = heap s a"
  by (simp add: submit_def Let_def append_message_def split: sum.splits)

lemma submit_length:
  "length (working_messages (submit fmt prompt outcome u s)) =
     length (working_messages s) +
     (if successful (prompt, outcome, u) then 2 else 0) +
     (if failed (prompt, outcome, u) then 1 else 0)"
  by (cases outcome; cases "prompt = []") (simp_all add: submit_Inl submit_Inr_messages)

section \<open>A failed query\<close>

text \<open>
  Claim C1. When the prompt is accepted and the query raises, the working messages are
  the earlier ones followed by the user's message, which is therefore the last entry
  and no assistant message follows it; the thread id and the conversation count are
  what they were before the submission.
\<close>

theorem submit_failure_keeps_user_message:
  assumes "prompt \<noteq> []"
  shows "working_messages (submit fmt prompt (Inl e) u s) =
           working_messages s @ [HumanMessage prompt] \<and>
         last (working_messages (submit fmt prompt (Inl e) u s)) = HumanMessage prompt \<and>
         thread_id (submit fmt prompt (Inl e) u s) = thread_id s \<and>
         conversation_count (submit fmt prompt (Inl e) u s) = conversation_count s"
  using assms by (simp add: submit_Inl)

theorem submit_failure_keeps_user_message_witness:
  "py ''hi'' \<noteq> [] \<and>
   working_messages (submit sample_fmt (py ''hi'') (Inl (HTTPError [])) (py ''u1'') init_session) =
     [HumanMessage (py ''hi'')] \<and>
   thread_id (submit sample_fmt (py ''hi'') (Inl (HTTPError [])) (py ''u1'') init_session) = None \<and>
   conversation_count (submit sample_fmt (py ''hi'') (Inl (HTTPError [])) (py ''u1'') init_session) = 0"
proof -
  have h: "py ''hi'' \<noteq> []" by simp
  show ?thesis
    using h submit_failure_keeps_user_message [OF h, of sample_fmt "HTTPError []" "py ''u1''" init_session]
    by (simp add: working_messages_def init_session_def)
qed

section \<open>The length of the working messages\<close>

text \<open>
  Claim C2, as the code has it. After any sequence of submissions the number of working
  messages is the number before, plus two for each submission whose query returned,
  plus one for each submission whose query raised: every failed submission leaves its
  user message behind, so the unanswered user messages are as many as the failed
  submissions and not at most one.
\<close>

theorem submit_all_length:
  "length (working_messages (submit_all fmt xs s)) =
     length (working_messages s) + 2 * successful_submits xs + failed_submits xs"
proof (induction xs arbitrary: s)
  case Nil
  show ?case by (simp add: successful_submits_def failed_submits_def)
next
  case (Cons x xs)
  obtain prompt outcome u where x: "x = (prompt, outcome, u)" by (cases x)
  show ?case
    unfolding x submit_all.simps Cons.IH submit_length
    by (simp add: successful_submits_def failed_submits_def)
qed

text \<open>
  Two submissions in a row whose queries raise, on the empty working thread: no
  submission succeeded and two user messages are unanswered.
\<close>

theorem two_failed_submits_counterexample:
  "successful_submits
     [(py ''a'', Inl (HTTPError []), []), (py ''b'', Inl (HTTPError []), [])] = 0 \<and>
   working_messages init_session = [] \<and>
   working_messages
     (submit_all sample_fmt
        [(py ''a'', Inl (HTTPError []), []), (py ''b'', Inl (HTTPError []), [])]
        init_session) = [HumanMessage (py ''a''), HumanMessage (py ''b'')] \<and>
   length (working_messages
     (submit_all sample_fmt
        [(py ''a'', Inl (HTTPError []), []), (py ''b'', Inl (HTTPError []), [])]
        init_session)) = 2"
  by (simp add: successful_submits_def submit_Inl working_messages_def append_message_def
        init_session_def)

section \<open>Basic facts about the sidebar\<close>

lemma start_new_chat_fields [simp]:
  "messages (start_new_chat s) = next_addr s"
  "next_addr (start_new_chat s) = Suc (next_addr s)"
  "heap (start_new_chat s) = (heap s)(next_addr s := [])"
  "thread_id (start_new_chat s) = None"
  "conversation_count (start_new_chat s) = 0"
  "active_chat_id (start_new_chat s) = None"
  "chat_history (start_new_chat s) = chat_history s"
  by (simp_all add: start_new_chat_def alloc_def)

lemma working_messages_start_new_chat [simp]: "working_messages (start_new_chat s) = []"
  by (simp add: working_messages_def)

lemma update_existing_snd:
  "snd (update_existing aid a tid n cs) = (aid \<in> set (map chat_id cs))"
  by (induction cs) (auto simp: split_def Let_def)

lemma update_existing_absent:
  "aid \<notin> set (map chat_id cs) \<Longrightarrow> fst (update_existing aid a tid n cs) = cs"
  by (induction cs) (auto simp: split_def Let_def)

lemma update_existing_ids:
  "map chat_id (fst (update_existing aid a tid n cs)) = map chat_id cs"
  by (induction cs) (auto simp: split_def Let_def)

lemma update_existing_titles:
  "map chat_title (fst (update_existing aid a tid n cs)) = map chat_title cs"
  by (induction cs) (auto simp: split_def Let_def)

lemma update_existing_length:
  "length (fst (update_existing aid a tid n cs)) = length cs"
  by (induction cs) (auto simp: split_def Let_def)

lemma update_existing_addresses:
  "set (map chat_messages (fst (update_existing aid a tid n cs)))
     \<subseteq> insert a (set (map chat_messages cs))"
  by (induction cs) (auto simp: split_def Let_def)

lemma update_existing_member:
  "c \<in> set (fst (update_existing aid a tid n cs)) \<Longrightarrow>
   c \<in> set cs \<or> chat_messages c = a"
  by (induction cs) (auto simp: split_def Let_def split: if_splits)

lemma update_existing_find:
  "aid \<in> set (map chat_id cs) \<Longrightarrow>
   \<exists>c. find (\<lambda>c. chat_id c = aid) (fst (update_existing aid a tid n cs)) = Some c \<and>
       chat_id c = aid \<and> chat_messages c = a \<and> chat_thread_id c = tid \<and> chat_count c = n"
  by (induction cs) (auto simp: split_def Let_def)

text \<open>
  The two ways through the save block: the loop of lines 87-93 finds the active chat
  and updates it, or it does not and lines 95-104 insert a new chat.
\<close>

lemma save_current_chat_update:
  assumes "working_messages s \<noteq> []" "active_chat_id s = Some aid" "aid \<noteq> []"
    "aid \<in> set (map chat_id (chat_history s))"
  shows "save_current_chat u t s =
           s\<lparr>heap := (heap s)(next_addr s := working_messages s),
             next_addr := Suc (next_addr s),
             chat_history :=
               fst (update_existing aid (next_addr s) (thread_id s) (conversation_count s)
                      (chat_history s))\<rparr>"
  using assms update_existing_snd [of aid "next_addr s" "thread_id s" "conversation_count s" "chat_history s"]
  by (simp add: save_current_chat_def alloc_def Let_def split_def)

lemma update_existing_not_found:
  "aid \<notin> set (map chat_id cs) \<Longrightarrow> update_existing aid a tid n cs = (cs, False)"
  using update_existing_snd [of aid a tid n cs] update_existing_absent [of aid cs a tid n]
  by (cases "update_existing aid a tid n cs") simp

lemma save_current_chat_insert:
  assumes "working_messages s \<noteq> []"
    "active_chat_id s = None \<or> active_chat_id s = Some [] \<or>
     (\<exists>aid. active_chat_id s = Some aid \<and> aid \<notin> set (map chat_id (chat_history s)))"
  shows "save_current_chat u t s =
           s\<lparr>heap := (heap s)(next_addr s := working_messages s),
             next_addr := Suc (next_addr s),
             chat_history :=
               \<lparr>chat_id = u,
                chat_title = chat_title_of (first_message (working_messages s)),
                chat_messages = next_addr s, chat_thread_id = thread_id s,
                chat_count = conversation_count s, chat_timestamp = t\<rparr> # chat_history s\<rparr>"
proof (cases "active_chat_id s")
  case None
  then show ?thesis
    using assms(1) by (simp add: save_current_chat_def alloc_def Let_def)
next
  case (Some aid)
  show ?thesis
  proof (cases "aid = []")
    case True
    then show ?thesis
      using assms(1) Some by (simp add: save_current_chat_def alloc_def Let_def)
  next
    case False
    with assms(2) Some have "aid \<notin> set (map chat_id (chat_history s))" by auto
    then have "update_existing aid (next_addr s) (thread_id s) (conversation_count s)
                 (chat_history s) = (chat_history s, False)"
      by (rule update_existing_not_found)
    then show ?thesis
      using assms(1) Some False by (simp add: save_current_chat_def alloc_def Let_def)
  qed
qed

lemma save_current_chat_empty [simp]:
  "working_messages s = [] \<Longrightarrow> save_current_chat u t s = s"
  by (simp add: save_current_chat_def)

lemma save_current_chat_cases:
  assumes "working_messages s \<noteq> []"
  obtains (update) aid where "active_chat_id s = Some aid" "aid \<noteq> []"
      "aid \<in> set (map chat_id (chat_history s))" "saved_chat_id u s = aid"
      "save_current_chat u t s =
         s\<lparr>heap := (heap s)(next_addr s := working_messages s),
           next_addr := Suc (next_addr s),
           chat_history :=
             fst (update_existing aid (next_addr s) (thread_id s) (conversation_count s)
                    (chat_history s))\<rparr>"
  | (insert) "saved_chat_id u s = u"
      "save_current_chat u t s =
         s\<lparr>heap := (heap s)(next_addr s := working_messages s),
           next_addr := Suc (next_addr s),
           chat_history :=
             \<lparr>chat_id = u,
              chat_title = chat_title_of (first_message (working_messages s)),
              chat_messages = next_addr s, chat_thread_id = thread_id s,
              chat_count = conversation_count s, chat_timestamp = t\<rparr> # chat_history s\<rparr>"
proof (cases "\<exists>aid. active_chat_id s = Some aid \<and> aid \<noteq> [] \<and>
                aid \<in> set (map chat_id (chat_history s))")
  case True
  then obtain aid where a: "active_chat_id s = Some aid" "aid \<noteq> []"
    "aid \<in> set (map chat_id (chat_history s))" by blast
  have "saved_chat_id u s = aid" using a by (simp add: saved_chat_id_def)
  with a show ?thesis
    using update [of aid] save_current_chat_update [OF assms a] by blast
next
  case False
  then have h: "active_chat_id s = None \<or> active_chat_id s = Some [] \<or>
     (\<exists>aid. active_chat_id s = Some aid \<and> aid \<notin> set (map chat_id (chat_history s)))"
    by (cases "active_chat_id s") auto
  have "saved_chat_id u s = u"
    using False by (auto simp: saved_chat_id_def split: option.splits)
  then show ?thesis
    using insert save_current_chat_insert [OF assms h] by blast
qed

lemma save_current_chat_fields:
  assumes "working_messages s \<noteq> []"
  shows "heap (save_current_chat u t s) = (heap s)(next_addr s := working_messages s)"
    and "next_addr (save_current_chat u t s) = Suc (next_addr s)"
    and "messages (save_current_chat u t s) = messages s"
    and "thread_id (save_current_chat u t s) = thread_id s"
    and "conversation_count (save_current_chat u t s) = conversation_count s"
    and "active_chat_id (save_current_chat u t s) = active_chat_id s"
  by (rule save_current_chat_cases [OF assms, of u t]; simp)+

lemma save_current_chat_member:
  assumes "working_messages s \<noteq> []" "c \<in> set (chat_history (save_current_chat u t s))"
  shows "c \<in> set (chat_history s) \<or> chat_messages c = next_addr s"
proof (rule save_current_chat_cases [OF assms(1), of u t])
  fix aid
  assume "save_current_chat u t s =
         s\<lparr>heap := (heap s)(next_addr s := working_messages s),
           next_addr := Suc (next_addr s),
           chat_history :=
             fst (update_existing aid (next_addr s) (thread_id s) (conversation_count s)
                    (chat_history s))\<rparr>"
  with assms(2) show ?thesis by (auto dest: update_existing_member)
next
  assume "save_current_chat u t s =
         s\<lparr>heap := (heap s)(next_addr s := working_messages s),
           next_addr := Suc (next_addr s),
           chat_history :=
             \<lparr>chat_id = u,
              chat_title = chat_title_of (first_message (working_messages s)),
              chat_messages = next_addr s, chat_thread_id = thread_id s,
              chat_count = conversation_count s, chat_timestamp = t\<rparr> # chat_history s\<rparr>"
  with assms(2) show ?thesis by auto
qed

lemma set_pop_chat: "set (pop_chat i cs) \<subseteq> set cs"
  by (induction cs) auto

lemma pop_chat_absent: "i \<notin> set (map chat_id cs) \<Longrightarrow> pop_chat i cs = cs"
  by (induction cs) auto

lemma pop_chat_distinct:
  "distinct (map chat_id cs) \<Longrightarrow> i \<notin> set (map chat_id (pop_chat i cs))"
  by (induction cs) auto

lemma pop_chat_keeps_distinct:
  "distinct (map chat_id cs) \<Longrightarrow> distinct (map chat_id (pop_chat i cs))"
proof (induction cs)
  case Nil
  show ?case by simp
next
  case (Cons c cs)
  have "chat_id c \<notin> chat_id ` set (pop_chat i cs)"
    using Cons.prems set_pop_chat [of i cs] by auto
  with Cons show ?case by simp
qed

section \<open>The store invariants hold in every run\<close>

lemma store_ok_init: "store_ok init_session"
  by (simp add: store_ok_def init_session_def)

lemma saved_nonempty_init: "saved_nonempty init_session"
  by (simp add: saved_nonempty_def init_session_def)

lemma human_nonempty_init: "human_nonempty init_session"
  by (simp add: human_nonempty_def init_session_def)

lemma store_ok_submit: "store_ok s \<Longrightarrow> store_ok (submit fmt prompt outcome u s)"
  by (simp add: store_ok_def)

lemma stored_messages_submit:
  assumes "store_ok s" "c \<in> set (chat_history s)"
  shows "stored_messages (submit fmt prompt outcome u s) c = stored_messages s c"
proof -
  have "chat_messages c \<noteq> messages s" using assms by (simp add: store_ok_def)
  then show ?thesis by (simp add: stored_messages_def submit_heap_other)
qed

lemma saved_nonempty_submit:
  "store_ok s \<Longrightarrow> saved_nonempty s \<Longrightarrow> saved_nonempty (submit fmt prompt outcome u s)"
  by (simp add: saved_nonempty_def stored_messages_submit)

lemma human_nonempty_append:
  "human_nonempty s \<Longrightarrow> m \<noteq> HumanMessage [] \<Longrightarrow> human_nonempty (append_message m s)"
  by (simp add: human_nonempty_def append_message_def)

lemma human_nonempty_submit:
  assumes "human_nonempty s"
  shows "human_nonempty (submit fmt prompt outcome u s)"
proof (cases "prompt = []")
  case True
  with assms show ?thesis by simp
next
  case False
  then have "\<And>a. HumanMessage [] \<notin> set (heap (submit fmt prompt outcome u s) a)"
    using assms
    by (auto simp: submit_def Let_def append_message_def human_nonempty_def split: sum.splits)
  then show ?thesis by (simp add: human_nonempty_def)
qed

lemma store_ok_start_new_chat:
  assumes "store_ok s"
  shows "store_ok (start_new_chat s)"
proof -
  have "chat_messages c < Suc (next_addr s) \<and> chat_messages c \<noteq> next_addr s"
    if "c \<in> set (chat_history s)" for c
  proof -
    have "chat_messages c < next_addr s" using assms that by (simp add: store_ok_def)
    then show ?thesis by simp
  qed
  then show ?thesis by (simp add: store_ok_def)
qed

lemma stored_messages_start_new_chat:
  assumes "store_ok s" "c \<in> set (chat_history s)"
  shows "stored_messages (start_new_chat s) c = stored_messages s c"
proof -
  have "chat_messages c < next_addr s" using assms by (simp add: store_ok_def)
  then have "chat_messages c \<noteq> next_addr s" by simp
  then show ?thesis by (simp add: stored_messages_def)
qed

lemma saved_nonempty_start_new_chat:
  "store_ok s \<Longrightarrow> saved_nonempty s \<Longrightarrow> saved_nonempty (start_new_chat s)"
  by (simp add: saved_nonempty_def stored_messages_start_new_chat)

lemma human_nonempty_start_new_chat:
  "human_nonempty s \<Longrightarrow> human_nonempty (start_new_chat s)"
  by (simp add: human_nonempty_def)

lemma store_ok_save: 
  assumes "store_ok s"
  shows "store_ok (save_current_chat u t s)"
proof (cases "working_messages s = []")
  case True
  with assms show ?thesis by simp
next
  case False
  have "chat_messages c < Suc (next_addr s) \<and> chat_messages c \<noteq> messages s"
    if "c \<in> set (chat_history (save_current_chat u t s))" for c
  proof -
    from save_current_chat_member [OF False that]
    show ?thesis
    proof
      assume "c \<in> set (chat_history s)"
      then show ?thesis using assms by (simp add: store_ok_def less_Suc_eq)
    next
      assume "chat_messages c = next_addr s"
      then show ?thesis using assms by (simp add: store_ok_def)
    qed
  qed
  moreover have "messages s < Suc (next_addr s)"
    using assms by (simp add: store_ok_def less_Suc_eq)
  ultimately show ?thesis
    by (simp add: store_ok_def save_current_chat_fields [OF False])
qed

lemma stored_messages_save:
  assumes "store_ok s" "c \<in> set (chat_history s)"
  shows "stored_messages (save_current_chat u t s) c = stored_messages s c"
proof (cases "working_messages s = []")
  case True
  then show ?thesis by simp
next
  case False
  have "chat_messages c < next_addr s" using assms by (simp add: store_ok_def)
  then have "chat_messages c \<noteq> next_addr s" by simp
  then show ?thesis by (simp add: stored_messages_def save_current_chat_fields [OF False])
qed

lemma saved_nonempty_save:
  assumes "store_ok s" "saved_nonempty s"
  shows "saved_nonempty (save_current_chat u t s)"
proof (cases "working_messages s = []")
  case True
  with assms show ?thesis by simp
next
  case False
  have "stored_messages (save_current_chat u t s) c \<noteq> []"
    if "c \<in> set (chat_history (save_current_chat u t s))" for c
  proof -
    from save_current_chat_member [OF False that]
    show ?thesis
    proof
      assume "c \<in> set (chat_history s)"
      then show ?thesis
        using assms by (simp add: stored_messages_save saved_nonempty_def)
    next
      assume "chat_messages c = next_addr s"
      then show ?thesis
        using False by (simp add: stored_messages_def save_current_chat_fields [OF False])
    qed
  qed
  then show ?thesis by (simp add: saved_nonempty_def)
qed

lemma human_nonempty_save:
  assumes "human_nonempty s"
  shows "human_nonempty (save_current_chat u t s)"
proof (cases "working_messages s = []")
  case True
  with assms show ?thesis by simp
next
  case False
  show ?thesis
    using assms
    by (simp add: human_nonempty_def save_current_chat_fields [OF False] working_messages_def)
qed

lemma store_ok_new_chat: "store_ok s \<Longrightarrow> store_ok (new_chat u t s)"
  by (simp add: new_chat_def store_ok_save store_ok_start_new_chat)

lemma saved_nonempty_new_chat:
  "store_ok s \<Longrightarrow> saved_nonempty s \<Longrightarrow> saved_nonempty (new_chat u t s)"
  by (simp add: new_chat_def store_ok_save saved_nonempty_save saved_nonempty_start_new_chat)

lemma human_nonempty_new_chat: "human_nonempty s \<Longrightarrow> human_nonempty (new_chat u t s)"
  by (simp add: new_chat_def human_nonempty_save human_nonempty_start_new_chat)

lemma load_chat_Some:
  assumes "load_chat i s = Some s'"
  obtains c where "find (\<lambda>c. chat_id c = i) (chat_history s) = Some c"
    "c \<in> set (chat_history s)" "chat_id c = i"
    "s' = s\<lparr>heap := (heap s)(next_addr s := stored_messages s c),
            next_addr := Suc (next_addr s), messages := next_addr s,
            thread_id := chat_thread_id c, conversation_count := chat_count c,
            active_chat_id := Some (chat_id c)\<rparr>"
proof (cases "find (\<lambda>c. chat_id c = i) (chat_history s)")
  case None
  with assms show ?thesis by (simp add: load_chat_def)
next
  case (Some c)
  then have "c \<in> set (chat_history s)" "chat_id c = i"
    by (auto simp: find_Some_iff)
  moreover have "s' = s\<lparr>heap := (heap s)(next_addr s := stored_messages s c),
            next_addr := Suc (next_addr s), messages := next_addr s,
            thread_id := chat_thread_id c, conversation_count := chat_count c,
            active_chat_id := Some (chat_id c)\<rparr>"
    using assms Some by (simp add: load_chat_def alloc_def)
  ultimately show ?thesis using that Some by blast
qed

lemma store_ok_load:
  assumes "store_ok s" "load_chat i s = Some s'"
  shows "store_ok s'"
proof (rule load_chat_Some [OF assms(2)])
  fix c
  assume s': "s' = s\<lparr>heap := (heap s)(next_addr s := stored_messages s c),
            next_addr := Suc (next_addr s), messages := next_addr s,
            thread_id := chat_thread_id c, conversation_count := chat_count c,
            active_chat_id := Some (chat_id c)\<rparr>"
  have "chat_messages d < Suc (next_addr s) \<and> chat_messages d \<noteq> next_addr s"
    if "d \<in> set (chat_history s)" for d
  proof -
    have "chat_messages d < next_addr s" using assms(1) that by (simp add: store_ok_def)
    then show ?thesis by simp
  qed
  then show ?thesis by (simp add: s' store_ok_def)
qed

lemma stored_messages_load:
  assumes "store_ok s" "load_chat i s = Some s'" "d \<in> set (chat_history s)"
  shows "stored_messages s' d = stored_messages s d"
proof (rule load_chat_Some [OF assms(2)])
  fix c
  assume s': "s' = s\<lparr>heap := (heap s)(next_addr s := stored_messages s c),
            next_addr := Suc (next_addr s), messages := next_addr s,
            thread_id := chat_thread_id c, conversation_count := chat_count c,
            active_chat_id := Some (chat_id c)\<rparr>"
  have "chat_messages d < next_addr s" using assms(1,3) by (simp add: store_ok_def)
  then show ?thesis by (simp add: s' stored_messages_def)
qed

lemma load_chat_history:
  assumes "load_chat i s = Some s'"
  shows "chat_history s' = chat_history s"
  by (rule load_chat_Some [OF assms]) simp

lemma saved_nonempty_load:
  assumes "store_ok s" "saved_nonempty s" "load_chat i s = Some s'"
  shows "saved_nonempty s'"
  using assms
  by (simp add: saved_nonempty_def load_chat_history [OF assms(3)] stored_messages_load)

lemma human_nonempty_load:
  assumes "human_nonempty s" "load_chat i s = Some s'"
  shows "human_nonempty s'"
proof (rule load_chat_Some [OF assms(2)])
  fix c
  assume s': "s' = s\<lparr>heap := (heap s)(next_addr s := stored_messages s c),
            next_addr := Suc (next_addr s), messages := next_addr s,
            thread_id := chat_thread_id c, conversation_count := chat_count c,
            active_chat_id := Some (chat_id c)\<rparr>"
  show ?thesis using assms(1) by (simp add: s' human_nonempty_def stored_messages_def)
qed

lemma store_ok_pop:
  assumes "store_ok s"
  shows "store_ok (s\<lparr>chat_history := pop_chat i (chat_history s)\<rparr>)"
  using assms set_pop_chat [of i "chat_history s"] by (auto simp: store_ok_def)

lemma saved_nonempty_pop:
  assumes "saved_nonempty s"
  shows "saved_nonempty (s\<lparr>chat_history := pop_chat i (chat_history s)\<rparr>)"
  using assms set_pop_chat [of i "chat_history s"]
  by (auto simp: saved_nonempty_def stored_messages_def)

lemma human_nonempty_pop:
  "human_nonempty s \<Longrightarrow> human_nonempty (s\<lparr>chat_history := cs\<rparr>)"
  by (simp add: human_nonempty_def)

lemma store_ok_delete: "store_ok s \<Longrightarrow> store_ok (delete_chat i s)"
  by (simp add: delete_chat_def Let_def store_ok_pop store_ok_start_new_chat)

lemma saved_nonempty_delete:
  "store_ok s \<Longrightarrow> saved_nonempty s \<Longrightarrow> saved_nonempty (delete_chat i s)"
  by (simp add: delete_chat_def Let_def store_ok_pop saved_nonempty_pop
        saved_nonempty_start_new_chat)

lemma human_nonempty_delete: "human_nonempty s \<Longrightarrow> human_nonempty (delete_chat i s)"
  by (simp add: delete_chat_def Let_def human_nonempty_pop human_nonempty_start_new_chat)

lemma store_ok_clear: "store_ok s \<Longrightarrow> store_ok (clear_current_chat s)"
  by (simp add: clear_current_chat_def store_ok_start_new_chat)

lemma saved_nonempty_clear:
  "store_ok s \<Longrightarrow> saved_nonempty s \<Longrightarrow> saved_nonempty (clear_current_chat s)"
  by (simp add: clear_current_chat_def saved_nonempty_start_new_chat)

lemma human_nonempty_clear: "human_nonempty s \<Longrightarrow> human_nonempty (clear_current_chat s)"
  by (simp add: clear_current_chat_def human_nonempty_start_new_chat)

lemma store_ok_step: "store_ok s \<Longrightarrow> store_ok (step fmt e s)"
  by (cases e)
     (auto simp: store_ok_new_chat store_ok_delete store_ok_clear store_ok_submit
        intro: store_ok_load split: option.splits)

lemma saved_nonempty_step:
  "store_ok s \<Longrightarrow> saved_nonempty s \<Longrightarrow> saved_nonempty (step fmt e s)"
  by (cases e)
     (auto simp: saved_nonempty_new_chat saved_nonempty_delete saved_nonempty_clear
        saved_nonempty_submit intro: saved_nonempty_load split: option.splits)

lemma human_nonempty_step: "human_nonempty s \<Longrightarrow> human_nonempty (step fmt e s)"
  by (cases e)
     (auto simp: human_nonempty_new_chat human_nonempty_delete human_nonempty_clear
        human_nonempty_submit intro: human_nonempty_load split: option.splits)

lemma store_ok_run: "store_ok s \<Longrightarrow> store_ok (run fmt es s)"
  by (induction es arbitrary: s) (simp_all add: store_ok_step)

lemma saved_nonempty_run:
  "store_ok s \<Longrightarrow> saved_nonempty s \<Longrightarrow> saved_nonempty (run fmt es s)"
  by (induction es arbitrary: s) (simp_all add: store_ok_step saved_nonempty_step)

lemma human_nonempty_run: "human_nonempty s \<Longrightarrow> human_nonempty (run fmt es s)"
  by (induction es arbitrary: s) (simp_all add: human_nonempty_step)

lemma store_ok_reachable: "store_ok (run fmt es init_session)"
  by (simp add: store_ok_run store_ok_init)

lemma human_nonempty_reachable: "human_nonempty (run fmt es init_session)"
  by (simp add: human_nonempty_run human_nonempty_init)

lemma submit_all_history [simp]: "chat_history (submit_all fmt xs s) = chat_history s"
  by (induction xs arbitrary: s) auto

lemma submit_all_active [simp]: "active_chat_id (submit_all fmt xs s) = active_chat_id s"
  by (induction xs arbitrary: s) auto

lemma store_ok_submit_all: "store_ok s \<Longrightarrow> store_ok (submit_all fmt xs s)"
  by (induction xs arbitrary: s) (auto simp: store_ok_submit)

lemma stored_messages_submit_all:
  "store_ok s \<Longrightarrow> c \<in> set (chat_history s) \<Longrightarrow>
   stored_messages (submit_all fmt xs s) c = stored_messages s c"
  by (induction xs arbitrary: s) (auto simp: store_ok_submit stored_messages_submit)

lemma find_after_save:
  assumes "working_messages s \<noteq> []"
  shows "\<exists>c. find (\<lambda>c. chat_id c = saved_chat_id u s) (chat_history (save_current_chat u t s)) = Some c \<and>
             chat_id c = saved_chat_id u s \<and> chat_messages c = next_addr s \<and>
             chat_thread_id c = thread_id s \<and> chat_count c = conversation_count s"
proof (rule save_current_chat_cases [OF assms, of u t])
  fix aid
  assume "aid \<in> set (map chat_id (chat_history s))" "saved_chat_id u s = aid"
    "save_current_chat u t s =
         s\<lparr>heap := (heap s)(next_addr s := working_messages s),
           next_addr := Suc (next_addr s),
           chat_history :=
             fst (update_existing aid (next_addr s) (thread_id s) (conversation_count s)
                    (chat_history s))\<rparr>"
  then show ?thesis
    using update_existing_find [of aid "chat_history s" "next_addr s" "thread_id s" "conversation_count s"]
    by simp
next
  assume "saved_chat_id u s = u"
    "save_current_chat u t s =
         s\<lparr>heap := (heap s)(next_addr s := working_messages s),
           next_addr := Suc (next_addr s),
           chat_history :=
             \<lparr>chat_id = u,
              chat_title = chat_title_of (first_message (working_messages s)),
              chat_messages = next_addr s, chat_thread_id = thread_id s,
              chat_count = conversation_count s, chat_timestamp = t\<rparr> # chat_history s\<rparr>"
  then show ?thesis by simp
qed

lemma load_chat_found:
  assumes "find (\<lambda>c. chat_id c = i) (chat_history s) = Some c"
  shows "load_chat i s =
           Some (s\<lparr>heap := (heap s)(next_addr s := stored_messages s c),
                   next_addr := Suc (next_addr s), messages := next_addr s,
                   thread_id := chat_thread_id c, conversation_count := chat_count c,
                   active_chat_id := Some (chat_id c)\<rparr>)"
  using assms by (simp add: load_chat_def alloc_def)

lemma load_after_save:
  assumes "working_messages s \<noteq> []"
    and "s1 = save_current_chat u t s \<or> s1 = new_chat u t s"
  shows "\<exists>s2. load_chat (saved_chat_id u s) s1 = Some s2 \<and>
              working_messages s2 = working_messages s \<and>
              thread_id s2 = thread_id s \<and>
              conversation_count s2 = conversation_count s \<and>
              active_chat_id s2 = Some (saved_chat_id u s)"
proof -
  obtain c where c: "find (\<lambda>c. chat_id c = saved_chat_id u s) (chat_history (save_current_chat u t s)) = Some c"
    "chat_id c = saved_chat_id u s" "chat_messages c = next_addr s"
    "chat_thread_id c = thread_id s" "chat_count c = conversation_count s"
    using find_after_save [OF assms(1)] by blast
  have hist: "chat_history s1 = chat_history (save_current_chat u t s)"
    using assms(2) by (auto simp: new_chat_def)
  have "heap s1 (next_addr s) = working_messages s"
    using assms(2) by (auto simp: new_chat_def save_current_chat_fields [OF assms(1)])
  then have stored: "stored_messages s1 c = working_messages s"
    by (simp add: stored_messages_def c)
  have "find (\<lambda>c. chat_id c = saved_chat_id u s) (chat_history s1) = Some c"
    by (simp add: hist c)
  from load_chat_found [OF this] show ?thesis
    by (simp add: stored c working_messages_def)
qed

lemma sample_events_run:
  "run sample_fmt sample_events init_session =
     \<lparr>heap = (\<lambda>_. [])(0 := [HumanMessage (py ''hi''),
                              AIMessage (full_response sample_fmt sample_response)]),
      next_addr = 1, messages = 0, thread_id = Some (py ''abc''),
      conversation_count = 1, chat_history = [], active_chat_id = None\<rparr>"
  by (simp add: sample_events_def submit_def append_message_def init_session_def truthy_def
        sample_response_def Let_def)

section \<open>Saving and loading a chat\<close>

text \<open>
  Claim C3. In every state the script can reach in which the working thread has
  messages, saving it (the save block alone, or the whole New Chat handler) and then
  loading the chat it was saved to gives back the same working messages, thread id and
  conversation count. The loaded messages are a list object of their own: whatever is
  submitted afterwards, the saved chats and the message lists they hold stay as they
  were.
\<close>

theorem save_then_load_restores:
  assumes "s = run fmt es init_session" and "working_messages s \<noteq> []"
    and "s1 = save_current_chat u t s \<or> s1 = new_chat u t s"
  shows "\<exists>s2. load_chat (saved_chat_id u s) s1 = Some s2 \<and>
              working_messages s2 = working_messages s \<and>
              thread_id s2 = thread_id s \<and>
              conversation_count s2 = conversation_count s \<and>
              (\<forall>xs. chat_history (submit_all fmt xs s2) = chat_history s2 \<and>
                    map (stored_messages (submit_all fmt xs s2)) (chat_history s2) =
                      map (stored_messages s2) (chat_history s2))"
proof -
  obtain s2 where s2: "load_chat (saved_chat_id u s) s1 = Some s2"
    "working_messages s2 = working_messages s" "thread_id s2 = thread_id s"
    "conversation_count s2 = conversation_count s"
    using load_after_save [OF assms(2,3)] by blast
  have "store_ok s" using assms(1) by (simp add: store_ok_reachable)
  then have "store_ok s1"
    using assms(3) by (auto simp: store_ok_save store_ok_new_chat)
  then have ok: "store_ok s2" using s2(1) by (rule store_ok_load)
  have "map (stored_messages (submit_all fmt xs s2)) (chat_history s2) =
          map (stored_messages s2) (chat_history s2)" for xs
    using ok by (simp add: stored_messages_submit_all)
  with s2 show ?thesis by simp
qed

theorem save_then_load_restores_witness:
  "working_messages (run sample_fmt sample_events init_session) \<noteq> [] \<and>
   (\<exists>s2. load_chat (py ''id1'')
            (new_chat (py ''id1'') 0 (run sample_fmt sample_events init_session)) = Some s2 \<and>
          working_messages s2 =
            [HumanMessage (py ''hi''), AIMessage (full_response sample_fmt sample_response)] \<and>
          thread_id s2 = Some (py ''abc'') \<and> conversation_count s2 = 1)"
proof -
  have w: "working_messages (run sample_fmt sample_events init_session) =
             [HumanMessage (py ''hi''), AIMessage (full_response sample_fmt sample_response)]"
    by (simp add: sample_events_run working_messages_def)
  have h: "working_messages (run sample_fmt sample_events init_session) \<noteq> []"
    by (simp add: w)
  have i: "saved_chat_id (py ''id1'') (run sample_fmt sample_events init_session) = py ''id1''"
    by (simp add: sample_events_run saved_chat_id_def)
  have f: "thread_id (run sample_fmt sample_events init_session) = Some (py ''abc'')"
    "conversation_count (run sample_fmt sample_events init_session) = 1"
    by (simp_all add: sample_events_run)
  show ?thesis
    using h save_then_load_restores [where u = "py ''id1''" and t = 0, OF refl h disjI2 [OF refl]]
    unfolding i w f by blast
qed

lemma sample_saved_run:
  "run sample_fmt sample_saved init_session =
     \<lparr>heap = (\<lambda>_. [])
         (0 := [HumanMessage (py ''hi''), AIMessage (full_response sample_fmt sample_response)],
          1 := [HumanMessage (py ''hi''), AIMessage (full_response sample_fmt sample_response)],
          2 := []),
      next_addr = 3, messages = 2, thread_id = None,
      conversation_count = 0,
      chat_history = [\<lparr>chat_id = py ''id1'', chat_title = py ''hi'', chat_messages = 1,
                        chat_thread_id = Some (py ''abc''), chat_count = 1,
                        chat_timestamp = 0\<rparr>],
      active_chat_id = None\<rparr>"
proof -
  have r: "run sample_fmt sample_saved init_session =
             new_chat (py ''id1'') 0 (run sample_fmt sample_events init_session)"
    by (simp add: sample_saved_def sample_events_def)
  show ?thesis
    unfolding r sample_events_run
    by (simp add: new_chat_def start_new_chat_def save_current_chat_def alloc_def
          working_messages_def chat_title_of_def Let_def numeral_2_eq_2 numeral_3_eq_3)
qed

section \<open>Saved chats are never empty\<close>

text \<open>
  Claim C9. In every state the script can reach, every saved chat holds at least one
  message; the next interaction, whichever it is (New Chat, loading or deleting a chat,
  Clear Current Chat, a submission), leaves it so, and so does the save block of the
  New Chat handler on its own: an empty working thread is never written to the history.
\<close>

theorem saved_chats_never_empty:
  "saved_nonempty (run fmt es init_session) \<and>
   saved_nonempty (step fmt e (run fmt es init_session)) \<and>
   saved_nonempty (save_current_chat u t (run fmt es init_session)) \<and>
   chat_history (save_current_chat u t (start_new_chat (run fmt es init_session))) =
     chat_history (run fmt es init_session)"
proof -
  have ok: "store_ok (run fmt es init_session)" by (rule store_ok_reachable)
  have ne: "saved_nonempty (run fmt es init_session)"
    by (simp add: saved_nonempty_run store_ok_init saved_nonempty_init)
  show ?thesis
    using ok ne by (simp add: saved_nonempty_step saved_nonempty_save)
qed

theorem saved_chats_never_empty_witness:
  "chat_history (run sample_fmt sample_saved init_session) \<noteq> [] \<and>
   saved_nonempty (run sample_fmt sample_saved init_session) \<and>
   map (stored_messages (run sample_fmt sample_saved init_session))
     (chat_history (run sample_fmt sample_saved init_session)) =
     [[HumanMessage (py ''hi''), AIMessage (full_response sample_fmt sample_response)]]"
proof -
  have "chat_history (run sample_fmt sample_saved init_session) \<noteq> []"
    by (simp add: sample_saved_run)
  moreover have "map (stored_messages (run sample_fmt sample_saved init_session))
     (chat_history (run sample_fmt sample_saved init_session)) =
     [[HumanMessage (py ''hi''), AIMessage (full_response sample_fmt sample_response)]]"
    by (simp add: sample_saved_run stored_messages_def)
  ultimately show ?thesis
    using saved_chats_never_empty [of sample_fmt sample_saved ClearChat "[]" 0] by blast
qed

lemma clear_current_chat_fields:
  assumes "working_messages s \<noteq> []"
  shows "clear_current_chat s = start_new_chat s"
  using assms by (simp add: clear_current_chat_def)

lemma store_ok_stored_after_new_chat:
  assumes "store_ok s" "c \<in> set (chat_history s)"
  shows "stored_messages (new_chat u t s) c = stored_messages s c"
proof (cases "working_messages s = []")
  case True
  with assms show ?thesis by (simp add: new_chat_def stored_messages_start_new_chat)
next
  case False
  have "chat_messages c < next_addr s" using assms by (simp add: store_ok_def)
  then show ?thesis
    by (simp add: new_chat_def stored_messages_def save_current_chat_fields [OF False])
qed

section \<open>Clearing the current chat\<close>

text \<open>
  Claim C10. In a reachable state that shows the Clear Current Chat button (the working
  thread has messages), the button empties the working messages, the thread id and the
  count and also sets the active chat id to \<open>None\<close>, leaving the history alone. After any
  submissions that follow, a save of a working thread with messages (the save block, or
  the whole New Chat handler) puts a new chat, with the new uuid and the working
  messages, in front of the history as it was before the clear; every chat saved
  before, the one that was active included, keeps its fields and its messages.
\<close>

theorem clear_then_save_inserts_new_chat:
  assumes "s = run fmt es init_session" and "working_messages s \<noteq> []"
    and "s2 = submit_all fmt xs (clear_current_chat s)" and "working_messages s2 \<noteq> []"
    and "s3 = save_current_chat u t s2 \<or> s3 = new_chat u t s2"
  shows "working_messages (clear_current_chat s) = [] \<and>
         thread_id (clear_current_chat s) = None \<and>
         conversation_count (clear_current_chat s) = 0 \<and>
         active_chat_id (clear_current_chat s) = None \<and>
         chat_history (clear_current_chat s) = chat_history s \<and>
         (\<exists>c. chat_history s3 = c # chat_history s \<and> chat_id c = u \<and>
              stored_messages s3 c = working_messages s2) \<and>
         map (stored_messages s3) (chat_history s) = map (stored_messages s) (chat_history s)"
proof -
  let ?s1 = "clear_current_chat s"
  have s1: "?s1 = start_new_chat s" using assms(2) by (rule clear_current_chat_fields)
  have ok: "store_ok s" using assms(1) by (simp add: store_ok_reachable)
  then have ok1: "store_ok ?s1" by (rule store_ok_clear)
  then have ok2: "store_ok s2" unfolding assms(3) by (rule store_ok_submit_all)
  have act: "active_chat_id s2 = None" and hist: "chat_history s2 = chat_history s"
    by (simp_all add: assms(3) s1)
  have save: "save_current_chat u t s2 =
           s2\<lparr>heap := (heap s2)(next_addr s2 := working_messages s2),
             next_addr := Suc (next_addr s2),
             chat_history :=
               \<lparr>chat_id = u,
                chat_title = chat_title_of (first_message (working_messages s2)),
                chat_messages = next_addr s2, chat_thread_id = thread_id s2,
                chat_count = conversation_count s2, chat_timestamp = t\<rparr> # chat_history s2\<rparr>"
    using assms(4) act by (intro save_current_chat_insert) simp_all
  let ?c = "\<lparr>chat_id = u,
                chat_title = chat_title_of (first_message (working_messages s2)),
                chat_messages = next_addr s2, chat_thread_id = thread_id s2,
                chat_count = conversation_count s2, chat_timestamp = t\<rparr>"
  have h3: "chat_history s3 = ?c # chat_history s"
    using assms(5) save hist by (auto simp: new_chat_def)
  have "heap s3 (next_addr s2) = working_messages s2"
    using assms(5) by (auto simp: new_chat_def save_current_chat_fields [OF assms(4)])
  then have new: "stored_messages s3 ?c = working_messages s2"
    by (simp add: stored_messages_def)
  have old: "stored_messages s3 d = stored_messages s d" if d: "d \<in> set (chat_history s)" for d
  proof -
    have "stored_messages s3 d = stored_messages s2 d"
      using assms(5) ok2 d hist
      by (auto simp: stored_messages_save store_ok_stored_after_new_chat)
    also have "\<dots> = stored_messages ?s1 d"
      unfolding assms(3) using ok1 d by (simp add: stored_messages_submit_all s1)
    also have "\<dots> = stored_messages s d"
      using ok d by (simp add: s1 stored_messages_start_new_chat)
    finally show ?thesis .
  qed
  have "\<exists>c. chat_history s3 = c # chat_history s \<and> chat_id c = u \<and>
              stored_messages s3 c = working_messages s2"
    using h3 new by (intro exI [of _ ?c]) simp
  moreover have "map (stored_messages s3) (chat_history s) = map (stored_messages s) (chat_history s)"
    using old by simp
  ultimately show ?thesis by (simp add: s1)
qed

lemma run_append: "run fmt (es @ es') s = run fmt es' (run fmt es s)"
  by (induction es arbitrary: s) auto

lemma sample_loaded_run:
  "working_messages (run sample_fmt sample_loaded init_session) =
     [HumanMessage (py ''hi''), AIMessage (full_response sample_fmt sample_response)]"
  "active_chat_id (run sample_fmt sample_loaded init_session) = Some (py ''id1'')"
  "map chat_id (chat_history (run sample_fmt sample_loaded init_session)) = [py ''id1'']"
  by (simp_all add: sample_loaded_def run_append sample_saved_run load_chat_def alloc_def
        stored_messages_def working_messages_def)

theorem clear_then_save_inserts_new_chat_witness:
  "working_messages (run sample_fmt sample_loaded init_session) \<noteq> [] \<and>
   active_chat_id (run sample_fmt sample_loaded init_session) = Some (py ''id1'') \<and>
   working_messages
     (submit_all sample_fmt [sample_failure]
        (clear_current_chat (run sample_fmt sample_loaded init_session))) \<noteq> [] \<and>
   active_chat_id (clear_current_chat (run sample_fmt sample_loaded init_session)) = None \<and>
   map chat_id
     (chat_history
        (new_chat (py ''id2'') 1
           (submit_all sample_fmt [sample_failure]
              (clear_current_chat (run sample_fmt sample_loaded init_session))))) =
     [py ''id2'', py ''id1'']"
proof -
  have h1: "working_messages (run sample_fmt sample_loaded init_session) \<noteq> []"
    by (simp add: sample_loaded_run)
  have h2: "working_messages
     (submit_all sample_fmt [sample_failure]
        (clear_current_chat (run sample_fmt sample_loaded init_session))) \<noteq> []"
    by (simp add: sample_failure_def submit_Inl)
  note c = clear_then_save_inserts_new_chat
    [where u = "py ''id2''" and t = 1, OF refl h1 refl h2 disjI2 [OF refl]]
  from c obtain d where "chat_history
        (new_chat (py ''id2'') 1
           (submit_all sample_fmt [sample_failure]
              (clear_current_chat (run sample_fmt sample_loaded init_session)))) =
      d # chat_history (run sample_fmt sample_loaded init_session)"
    "chat_id d = py ''id2''" by blast
  then have "map chat_id
     (chat_history
        (new_chat (py ''id2'') 1
           (submit_all sample_fmt [sample_failure]
              (clear_current_chat (run sample_fmt sample_loaded init_session))))) =
     [py ''id2'', py ''id1'']"
    by (simp add: sample_loaded_run)
  with h1 h2 c show ?thesis by (simp add: sample_loaded_run)
qed

section \<open>The title of a saved chat\<close>

lemma first_message_find:
  "first_message ms =
     (case find (\<lambda>m. case m of HumanMessage c \<Rightarrow> True | AIMessage c \<Rightarrow> False) ms of
        None \<Rightarrow> None | Some m \<Rightarrow> Some (content m))"
  by (induction ms rule: first_message.induct) auto

lemma first_message_nonempty:
  "first_message ms = Some c \<Longrightarrow> HumanMessage [] \<notin> set ms \<Longrightarrow> c \<noteq> []"
  by (induction ms rule: first_message.induct) auto

lemma first_message_None: "first_message ms = None \<longleftrightarrow> (\<forall>c. HumanMessage c \<notin> set ms)"
  by (induction ms rule: first_message.induct) auto

subsection \<open>Every list object starts with a user message\<close>

lemma human_first_append:
  "human_first xs \<Longrightarrow> human_first (xs @ HumanMessage p # ys)"
  by (induction xs rule: human_first.induct) auto

lemma human_first_append_nonempty:
  "human_first xs \<Longrightarrow> xs \<noteq> [] \<Longrightarrow> human_first (xs @ ys)"
  by (induction xs rule: human_first.induct) auto

lemma first_message_prefix:
  "human_first xs \<Longrightarrow> xs \<noteq> [] \<Longrightarrow> first_message (xs @ zs) = first_message xs"
  by (induction xs rule: human_first.induct) auto

lemma submit_heap:
  "heap (submit fmt prompt outcome u s) =
     (heap s)(messages s := heap s (messages s) @
        (if prompt = [] then []
         else case outcome of
                Inl e \<Rightarrow> [HumanMessage prompt]
              | Inr r \<Rightarrow> [HumanMessage prompt, AIMessage (full_response fmt r)]))"
  by (cases outcome) (auto simp: submit_def Let_def append_message_def)

lemma submit_extends:
  "\<exists>ys. working_messages (submit fmt prompt outcome u s) = working_messages s @ ys"
  by (simp add: working_messages_def submit_heap)

lemma heads_ok_init: "heads_ok init_session"
  by (simp add: heads_ok_def init_session_def)

lemma heads_ok_submit:
  assumes "heads_ok s"
  shows "heads_ok (submit fmt prompt outcome u s)"
proof (cases "prompt = []")
  case True
  with assms show ?thesis by simp
next
  case False
  have h: "human_first (heap s (messages s))" using assms by (simp add: heads_ok_def)
  show ?thesis
  proof (cases outcome)
    case (Inl e)
    then show ?thesis
      using assms False human_first_append [OF h, of prompt "[]"]
      by (simp add: heads_ok_def submit_heap)
  next
    case (Inr r)
    then show ?thesis
      using assms False human_first_append [OF h, of prompt "[AIMessage (full_response fmt r)]"]
      by (simp add: heads_ok_def submit_heap)
  qed
qed

lemma heads_ok_start_new_chat: "heads_ok s \<Longrightarrow> heads_ok (start_new_chat s)"
  by (simp add: heads_ok_def)

lemma heads_ok_save:
  assumes "heads_ok s"
  shows "heads_ok (save_current_chat u t s)"
proof (cases "working_messages s = []")
  case True
  with assms show ?thesis by simp
next
  case False
  show ?thesis
    using assms
    by (simp add: heads_ok_def save_current_chat_fields [OF False] working_messages_def)
qed

lemma heads_ok_load:
  assumes "heads_ok s" "load_chat i s = Some s'"
  shows "heads_ok s'"
  by (rule load_chat_Some [OF assms(2)])
     (use assms(1) in \<open>simp add: heads_ok_def stored_messages_def\<close>)

lemma heads_ok_history: "heads_ok s \<Longrightarrow> heads_ok (s\<lparr>chat_history := cs\<rparr>)"
  by (simp add: heads_ok_def)

lemma heads_ok_step: "heads_ok s \<Longrightarrow> heads_ok (step fmt e s)"
  by (cases e)
     (auto simp: new_chat_def delete_chat_def clear_current_chat_def Let_def heads_ok_save
        heads_ok_start_new_chat heads_ok_submit heads_ok_history
        intro: heads_ok_load split: option.splits)

subsection \<open>The working messages continue the active chat\<close>

lemma find_pop_chat:
  "i \<noteq> aid \<Longrightarrow>
   find (\<lambda>c. chat_id c = aid) (pop_chat i cs) = find (\<lambda>c. chat_id c = aid) cs"
  by (induction cs) auto

lemma find_member: "find P xs = Some x \<Longrightarrow> x \<in> set xs \<and> P x"
  by (auto simp: find_Some_iff)

lemma active_prefix_init: "active_prefix init_session"
  by (simp add: active_prefix_def init_session_def)

lemma active_prefix_none: "active_chat_id s = None \<Longrightarrow> active_prefix s"
  by (simp add: active_prefix_def)

lemma active_prefix_submit:
  assumes "store_ok s" "active_prefix s"
  shows "active_prefix (submit fmt prompt outcome u s)"
proof (cases "active_chat_id s")
  case None
  then show ?thesis by (simp add: active_prefix_def)
next
  case (Some aid)
  show ?thesis
  proof (cases "find (\<lambda>c. chat_id c = aid) (chat_history s)")
    case None
    with Some show ?thesis by (simp add: active_prefix_def)
  next
    case c: (Some c)
    then have mem: "c \<in> set (chat_history s)" by (simp add: find_member)
    obtain zs where zs: "working_messages s = stored_messages s c @ zs"
      using assms(2) Some c by (auto simp: active_prefix_def)
    obtain ys where ys: "working_messages (submit fmt prompt outcome u s) = working_messages s @ ys"
      using submit_extends by blast
    have "working_messages (submit fmt prompt outcome u s) =
            stored_messages (submit fmt prompt outcome u s) c @ (zs @ ys)"
      by (simp add: ys zs stored_messages_submit [OF assms(1) mem])
    then show ?thesis
      using Some c by (auto simp: active_prefix_def)
  qed
qed

lemma active_prefix_load:
  assumes "store_ok s" "load_chat i s = Some s'"
  shows "active_prefix s'"
proof (rule load_chat_Some [OF assms(2)])
  fix c
  assume f: "find (\<lambda>c. chat_id c = i) (chat_history s) = Some c"
    and mem: "c \<in> set (chat_history s)" and i: "chat_id c = i"
    and s': "s' = s\<lparr>heap := (heap s)(next_addr s := stored_messages s c),
            next_addr := Suc (next_addr s), messages := next_addr s,
            thread_id := chat_thread_id c, conversation_count := chat_count c,
            active_chat_id := Some (chat_id c)\<rparr>"
  have "chat_messages c < next_addr s" using assms(1) mem by (simp add: store_ok_def)
  then have "working_messages s' = stored_messages s' c"
    by (simp add: s' working_messages_def stored_messages_def)
  then show ?thesis
    using f i by (simp add: active_prefix_def s')
qed

lemma active_prefix_delete:
  assumes "active_prefix s"
  shows "active_prefix (delete_chat i s)"
proof (cases "i \<in> set (map chat_id (chat_history s))")
  case False
  with assms show ?thesis by (simp add: delete_chat_def)
next
  case True
  show ?thesis
  proof (cases "Some i = active_chat_id s")
    case True
    with \<open>i \<in> set (map chat_id (chat_history s))\<close> show ?thesis
      by (simp add: delete_chat_def Let_def active_prefix_none)
  next
    case False
    have "active_prefix (s\<lparr>chat_history := pop_chat i (chat_history s)\<rparr>)"
    proof (cases "active_chat_id s")
      case None
      then show ?thesis by (simp add: active_prefix_def)
    next
      case (Some aid)
      with False have "i \<noteq> aid" by auto
      then show ?thesis
        using assms Some
        by (auto simp: active_prefix_def find_pop_chat working_messages_def stored_messages_def
              split: option.splits)
    qed
    with True False show ?thesis by (simp add: delete_chat_def Let_def)
  qed
qed

lemma active_prefix_step:
  assumes "store_ok s" "active_prefix s"
  shows "active_prefix (step fmt e s)"
proof (cases e)
  case (NewChat u t)
  then show ?thesis by (simp add: new_chat_def active_prefix_none)
next
  case (LoadChat i)
  then show ?thesis
    using assms by (auto split: option.splits intro: active_prefix_load)
next
  case (DeleteChat i)
  then show ?thesis using assms(2) by (simp add: active_prefix_delete)
next
  case ClearChat
  then show ?thesis using assms(2) by (simp add: clear_current_chat_def active_prefix_none)
next
  case (ChatInput p out u)
  then show ?thesis using assms by (simp add: active_prefix_submit)
qed

subsection \<open>The stored titles\<close>

lemma update_existing_member_find:
  "d \<in> set (fst (update_existing aid a tid n cs)) \<Longrightarrow>
   d \<in> set cs \<or>
   (\<exists>c. find (\<lambda>c. chat_id c = aid) cs = Some c \<and>
        d = c\<lparr>chat_messages := a, chat_thread_id := tid, chat_count := n\<rparr>)"
  by (induction cs) (auto simp: split_def Let_def split: if_splits)

lemma titles_ok_init: "titles_ok init_session"
  by (simp add: titles_ok_def init_session_def)

lemma titles_ok_submit:
  "store_ok s \<Longrightarrow> titles_ok s \<Longrightarrow> titles_ok (submit fmt prompt outcome u s)"
  by (simp add: titles_ok_def stored_messages_submit)

lemma titles_ok_start_new_chat:
  "store_ok s \<Longrightarrow> titles_ok s \<Longrightarrow> titles_ok (start_new_chat s)"
  by (simp add: titles_ok_def stored_messages_start_new_chat)

lemma titles_ok_save:
  assumes "store_ok s" "saved_nonempty s" "heads_ok s" "active_prefix s" "titles_ok s"
  shows "titles_ok (save_current_chat u t s)"
proof (cases "working_messages s = []")
  case True
  with assms show ?thesis by simp
next
  case False
  note fields = save_current_chat_fields [OF False, of u t]
  have old: "chat_title d = chat_title_of (first_message (stored_messages (save_current_chat u t s) d))"
    if "d \<in> set (chat_history s)" for d
    using assms(1,5) that by (simp add: stored_messages_save titles_ok_def)
  have new: "stored_messages (save_current_chat u t s) d = working_messages s"
    if "chat_messages d = next_addr s" for d
    using that by (simp add: stored_messages_def fields)
  show ?thesis
  proof (rule save_current_chat_cases [OF False, of u t])
    fix aid
    assume act: "active_chat_id s = Some aid"
      and eq: "save_current_chat u t s =
         s\<lparr>heap := (heap s)(next_addr s := working_messages s),
           next_addr := Suc (next_addr s),
           chat_history :=
             fst (update_existing aid (next_addr s) (thread_id s) (conversation_count s)
                    (chat_history s))\<rparr>"
    have "chat_title d = chat_title_of (first_message (stored_messages (save_current_chat u t s) d))"
      if d: "d \<in> set (chat_history (save_current_chat u t s))" for d
    proof -
      from d eq have "d \<in> set (fst (update_existing aid (next_addr s) (thread_id s)
                       (conversation_count s) (chat_history s)))" by simp
      from update_existing_member_find [OF this]
      show ?thesis
      proof
        assume "d \<in> set (chat_history s)"
        then show ?thesis by (rule old)
      next
        assume "\<exists>c. find (\<lambda>c. chat_id c = aid) (chat_history s) = Some c \<and>
            d = c\<lparr>chat_messages := next_addr s, chat_thread_id := thread_id s,
                  chat_count := conversation_count s\<rparr>"
        then obtain c where c: "find (\<lambda>c. chat_id c = aid) (chat_history s) = Some c"
          and dc: "d = c\<lparr>chat_messages := next_addr s, chat_thread_id := thread_id s,
                  chat_count := conversation_count s\<rparr>" by blast
        have mem: "c \<in> set (chat_history s)" using c by (simp add: find_member)
        obtain zs where zs: "working_messages s = stored_messages s c @ zs"
          using assms(4) act c by (auto simp: active_prefix_def)
        have ne: "stored_messages s c \<noteq> []"
          using assms(2) mem by (simp add: saved_nonempty_def)
        have hf: "human_first (stored_messages s c)"
          using assms(3) by (simp add: heads_ok_def stored_messages_def)
        have "first_message (working_messages s) = first_message (stored_messages s c)"
          unfolding zs using hf ne by (rule first_message_prefix)
        moreover have "chat_title c = chat_title_of (first_message (stored_messages s c))"
          using assms(5) mem by (simp add: titles_ok_def)
        moreover have "stored_messages (save_current_chat u t s) d = working_messages s"
          by (rule new) (simp add: dc)
        ultimately show ?thesis by (simp add: dc)
      qed
    qed
    then show ?thesis by (simp add: titles_ok_def)
  next
    assume eq: "save_current_chat u t s =
         s\<lparr>heap := (heap s)(next_addr s := working_messages s),
           next_addr := Suc (next_addr s),
           chat_history :=
             \<lparr>chat_id = u,
              chat_title = chat_title_of (first_message (working_messages s)),
              chat_messages = next_addr s, chat_thread_id = thread_id s,
              chat_count = conversation_count s, chat_timestamp = t\<rparr> # chat_history s\<rparr>"
    have "chat_title d = chat_title_of (first_message (stored_messages (save_current_chat u t s) d))"
      if d: "d \<in> set (chat_history (save_current_chat u t s))" for d
    proof -
      from d eq have "d = \<lparr>chat_id = u,
              chat_title = chat_title_of (first_message (working_messages s)),
              chat_messages = next_addr s, chat_thread_id = thread_id s,
              chat_count = conversation_count s, chat_timestamp = t\<rparr> \<or> d \<in> set (chat_history s)"
        by simp
      then show ?thesis
      proof
        assume dd: "d = \<lparr>chat_id = u,
              chat_title = chat_title_of (first_message (working_messages s)),
              chat_messages = next_addr s, chat_thread_id = thread_id s,
              chat_count = conversation_count s, chat_timestamp = t\<rparr>"
        have "stored_messages (save_current_chat u t s) d = working_messages s"
          by (rule new) (simp add: dd)
        then show ?thesis by (simp add: dd)
      next
        assume "d \<in> set (chat_history s)"
        then show ?thesis by (rule old)
      qed
    qed
    then show ?thesis by (simp add: titles_ok_def)
  qed
qed

lemma titles_ok_load:
  assumes "store_ok s" "titles_ok s" "load_chat i s = Some s'"
  shows "titles_ok s'"
  using assms
  by (simp add: titles_ok_def load_chat_history [OF assms(3)] stored_messages_load)

lemma titles_ok_pop:
  assumes "titles_ok s"
  shows "titles_ok (s\<lparr>chat_history := pop_chat i (chat_history s)\<rparr>)"
  using assms set_pop_chat [of i "chat_history s"]
  by (auto simp: titles_ok_def stored_messages_def)

lemma titles_ok_step:
  assumes "store_ok s" "saved_nonempty s" "heads_ok s" "active_prefix s" "titles_ok s"
  shows "titles_ok (step fmt e s)"
proof (cases e)
  case (NewChat u t)
  then show ?thesis
    using assms by (simp add: new_chat_def titles_ok_start_new_chat titles_ok_save store_ok_save)
next
  case (LoadChat i)
  then show ?thesis
    using assms(1,5) by (auto split: option.splits intro: titles_ok_load)
next
  case (DeleteChat i)
  then show ?thesis
    using assms(1,5)
    by (simp add: delete_chat_def Let_def titles_ok_pop titles_ok_start_new_chat store_ok_pop)
next
  case ClearChat
  then show ?thesis
    using assms(1,5) by (simp add: clear_current_chat_def titles_ok_start_new_chat)
next
  case (ChatInput p out u)
  then show ?thesis using assms(1,5) by (simp add: titles_ok_submit)
qed

lemma title_invariants_run:
  assumes "store_ok s" "saved_nonempty s" "heads_ok s" "active_prefix s" "titles_ok s"
  shows "saved_nonempty (run fmt es s) \<and> heads_ok (run fmt es s) \<and>
         active_prefix (run fmt es s) \<and> titles_ok (run fmt es s)"
  using assms
proof (induction es arbitrary: s)
  case Nil
  then show ?case by simp
next
  case (Cons e es)
  have "store_ok (step fmt e s)" "saved_nonempty (step fmt e s)" "heads_ok (step fmt e s)"
    "active_prefix (step fmt e s)" "titles_ok (step fmt e s)"
    using Cons.prems
    by (simp_all add: store_ok_step saved_nonempty_step heads_ok_step active_prefix_step
          titles_ok_step)
  then show ?case using Cons.IH by simp
qed

lemma title_invariants_reachable:
  "saved_nonempty (run fmt es init_session) \<and> heads_ok (run fmt es init_session) \<and>
   active_prefix (run fmt es init_session) \<and> titles_ok (run fmt es init_session)"
  by (rule title_invariants_run)
     (simp_all add: store_ok_init saved_nonempty_init heads_ok_init active_prefix_init
        titles_ok_init)

subsection \<open>The title derived at a save\<close>

lemma first_message_decomp:
  "(\<forall>x. HumanMessage x \<notin> set as) \<Longrightarrow> first_message (as @ HumanMessage c # bs) = Some c"
  by (induction as rule: first_message.induct) auto

lemma two_questions_run:
  "working_messages (run sample_fmt two_questions init_session) =
     [HumanMessage long_question, HumanMessage (py ''second'')]"
  "active_chat_id (run sample_fmt two_questions init_session) = None"
  "chat_history (run sample_fmt two_questions init_session) = []"
  by (simp_all add: two_questions_def submit_def long_question_def working_messages_def
        append_message_def init_session_def)

lemma reload_events_run:
  "run sample_fmt reload_events init_session =
     \<lparr>heap = (\<lambda>_. [])
         (0 := [HumanMessage (py ''q'')],
          1 := [HumanMessage (py ''q'')],
          2 := [],
          3 := [HumanMessage (py ''q''), HumanMessage (py ''hi''),
                AIMessage (full_response sample_fmt sample_response)]),
      next_addr = 4, messages = 3, thread_id = Some (py ''abc''),
      conversation_count = 1,
      chat_history = [\<lparr>chat_id = py ''id1'', chat_title = py ''q'', chat_messages = 1,
                        chat_thread_id = None, chat_count = 0, chat_timestamp = 0\<rparr>],
      active_chat_id = Some (py ''id1'')\<rparr>"
  by (simp add: reload_events_def submit_def append_message_def init_session_def truthy_def
        sample_response_def Let_def new_chat_def start_new_chat_def save_current_chat_def
        alloc_def working_messages_def stored_messages_def chat_title_of_def load_chat_def
        numeral_2_eq_2 numeral_3_eq_3 fun_upd_twist)

text \<open>
  Claim C6. A list without a user message gets the title \<open>New Chat\<close>. A list whose
  first user message has the content \<open>c\<close>, whatever stands before it (no user message)
  and after it (any messages, user messages included), gets \<open>c\<close> when \<open>c\<close> has at
  most 50 characters and its first 50 characters followed by \<open>...\<close> when it has more.
  In every state the script can reach this is the title that a save derives from the
  working messages, and it is the title of the chat that holds the working thread after
  the save: of the chat the save inserts at the front of the history, and of the active
  chat that the save updates, whose title was stored at its first save and is not
  written again. The working messages of a reachable state, when there are any, begin
  with a user message of at least one character, so a save always finds one.
\<close>

theorem saved_title_from_first_user_message:
  assumes "s = run fmt es init_session"
  shows "((\<forall>x. HumanMessage x \<notin> set ms) \<longrightarrow>
            chat_title_of (first_message ms) = py ''New Chat'') \<and>
         ((\<forall>x. HumanMessage x \<notin> set as) \<and> c \<noteq> [] \<longrightarrow>
            chat_title_of (first_message (as @ HumanMessage c # bs)) =
              (if length c > 50 then take 50 c @ py ''...'' else c)) \<and>
         (working_messages s = as @ HumanMessage c # bs \<and> (\<forall>x. HumanMessage x \<notin> set as) \<longrightarrow>
            chat_title_of (first_message (working_messages s)) =
              (if length c > 50 then take 50 c @ py ''...'' else c) \<and>
            (\<exists>d. find (\<lambda>d. chat_id d = saved_chat_id u s)
                   (chat_history (save_current_chat u t s)) = Some d \<and>
                 stored_messages (save_current_chat u t s) d = working_messages s \<and>
                 chat_title d = (if length c > 50 then take 50 c @ py ''...'' else c))) \<and>
         (working_messages s \<noteq> [] \<and>
          \<not> (\<exists>aid. active_chat_id s = Some aid \<and> aid \<noteq> [] \<and>
                 aid \<in> set (map chat_id (chat_history s))) \<longrightarrow>
            map chat_title (chat_history (save_current_chat u t s)) =
              chat_title_of (first_message (working_messages s)) # map chat_title (chat_history s)) \<and>
         (working_messages s \<noteq> [] \<and>
          (\<exists>aid. active_chat_id s = Some aid \<and> aid \<noteq> [] \<and>
                 aid \<in> set (map chat_id (chat_history s))) \<longrightarrow>
            map chat_title (chat_history (save_current_chat u t s)) =
              map chat_title (chat_history s)) \<and>
         (\<forall>d \<in> set (chat_history (save_current_chat u t s)).
            chat_title d =
              chat_title_of (first_message (stored_messages (save_current_chat u t s) d))) \<and>
         (working_messages s \<noteq> [] \<longrightarrow>
            (\<exists>q qs. working_messages s = HumanMessage q # qs \<and> q \<noteq> []))"
proof -
  have inv: "store_ok s" "saved_nonempty s" "heads_ok s" "active_prefix s" "titles_ok s"
    using assms title_invariants_reachable [of fmt es] by (simp_all add: store_ok_reachable)
  have "human_nonempty s" using assms by (simp add: human_nonempty_reachable)
  then have ne: "HumanMessage [] \<notin> set (working_messages s)"
    by (simp add: human_nonempty_def working_messages_def)
  have saved: "titles_ok (save_current_chat u t s)"
    using inv by (rule titles_ok_save)
  have c1: "chat_title_of (first_message ms) = py ''New Chat''"
    if "\<forall>x. HumanMessage x \<notin> set ms"
  proof -
    have "first_message ms = None" using that by (simp add: first_message_None)
    then show ?thesis by (simp add: chat_title_of_def)
  qed
  have c2: "chat_title_of (first_message (as @ HumanMessage c # bs)) =
              (if length c > 50 then take 50 c @ py ''...'' else c)"
    if "\<forall>x. HumanMessage x \<notin> set as" "c \<noteq> []"
    using that by (simp add: first_message_decomp chat_title_of_def)
  have c3: "chat_title_of (first_message (working_messages s)) =
              (if length c > 50 then take 50 c @ py ''...'' else c) \<and>
            (\<exists>d. find (\<lambda>d. chat_id d = saved_chat_id u s)
                   (chat_history (save_current_chat u t s)) = Some d \<and>
                 stored_messages (save_current_chat u t s) d = working_messages s \<and>
                 chat_title d = (if length c > 50 then take 50 c @ py ''...'' else c))"
    if w: "working_messages s = as @ HumanMessage c # bs" and a: "\<forall>x. HumanMessage x \<notin> set as"
  proof -
    have cne: "c \<noteq> []" using ne w by auto
    have t: "chat_title_of (first_message (working_messages s)) =
              (if length c > 50 then take 50 c @ py ''...'' else c)"
      unfolding w using a cne by (rule c2)
    have wne: "working_messages s \<noteq> []" using w by simp
    from find_after_save [OF wne, of u t]
    obtain d where d: "find (\<lambda>d. chat_id d = saved_chat_id u s)
                   (chat_history (save_current_chat u t s)) = Some d"
      and dm: "chat_messages d = next_addr s" by blast
    have st: "stored_messages (save_current_chat u t s) d = working_messages s"
      using dm by (simp add: stored_messages_def save_current_chat_fields [OF wne])
    have "d \<in> set (chat_history (save_current_chat u t s))" using d by (simp add: find_member)
    with saved have "chat_title d =
        chat_title_of (first_message (stored_messages (save_current_chat u t s) d))"
      by (simp add: titles_ok_def)
    with st t d show ?thesis by simp
  qed
  have c4: "map chat_title (chat_history (save_current_chat u t s)) =
              chat_title_of (first_message (working_messages s)) # map chat_title (chat_history s)"
    if "working_messages s \<noteq> []"
       "\<not> (\<exists>aid. active_chat_id s = Some aid \<and> aid \<noteq> [] \<and>
                 aid \<in> set (map chat_id (chat_history s)))"
  proof -
    have "active_chat_id s = None \<or> active_chat_id s = Some [] \<or>
     (\<exists>aid. active_chat_id s = Some aid \<and> aid \<notin> set (map chat_id (chat_history s)))"
      using that(2) by (cases "active_chat_id s") auto
    from save_current_chat_insert [OF that(1) this, of u t] show ?thesis by simp
  qed
  have c5: "map chat_title (chat_history (save_current_chat u t s)) =
              map chat_title (chat_history s)"
    if "working_messages s \<noteq> []"
       "\<exists>aid. active_chat_id s = Some aid \<and> aid \<noteq> [] \<and>
                 aid \<in> set (map chat_id (chat_history s))"
  proof -
    from that(2) obtain aid where "active_chat_id s = Some aid" "aid \<noteq> []"
      "aid \<in> set (map chat_id (chat_history s))" by blast
    from save_current_chat_update [OF that(1) this, of u t] show ?thesis
      by (simp add: update_existing_titles)
  qed
  have c6: "\<forall>d \<in> set (chat_history (save_current_chat u t s)).
            chat_title d =
              chat_title_of (first_message (stored_messages (save_current_chat u t s) d))"
    using saved by (simp add: titles_ok_def)
  have c7: "\<exists>q qs. working_messages s = HumanMessage q # qs \<and> q \<noteq> []"
    if "working_messages s \<noteq> []"
  proof -
    have "human_first (working_messages s)"
      using inv(3) by (simp add: heads_ok_def working_messages_def)
    with that obtain q qs where q: "working_messages s = HumanMessage q # qs"
      by (cases "working_messages s" rule: human_first.cases) auto
    with ne have "q \<noteq> []" by auto
    with q show ?thesis by blast
  qed
  from c1 c2 c3 c4 c5 c6 c7 show ?thesis by blast
qed

theorem saved_title_from_first_user_message_witness:
  "chat_title_of (first_message [AIMessage (py ''only an answer'')]) = py ''New Chat'' \<and>
   chat_title_of (first_message
      [AIMessage (py ''hello''), HumanMessage (py ''one''), HumanMessage (py ''two'')]) =
     py ''one'' \<and>
   working_messages (run sample_fmt two_questions init_session) =
     [HumanMessage long_question, HumanMessage (py ''second'')] \<and>
   length long_question = 64 \<and>
   chat_title_of (first_message (working_messages (run sample_fmt two_questions init_session))) =
     py ''Tell me about the Acme SOW deliverables and milest...'' \<and>
   map chat_title
     (chat_history (save_current_chat (py ''id1'') 0 (run sample_fmt two_questions init_session))) =
     [py ''Tell me about the Acme SOW deliverables and milest...''] \<and>
   working_messages (run sample_fmt reload_events init_session) =
     [HumanMessage (py ''q''), HumanMessage (py ''hi''),
      AIMessage (full_response sample_fmt sample_response)] \<and>
   saved_chat_id (py ''id2'') (run sample_fmt reload_events init_session) = py ''id1'' \<and>
   (\<exists>d. find (\<lambda>d. chat_id d = py ''id1'')
          (chat_history (save_current_chat (py ''id2'') 1
             (run sample_fmt reload_events init_session))) = Some d \<and>
        stored_messages (save_current_chat (py ''id2'') 1
             (run sample_fmt reload_events init_session)) d =
          [HumanMessage (py ''q''), HumanMessage (py ''hi''),
           AIMessage (full_response sample_fmt sample_response)] \<and>
        chat_title d = py ''q'') \<and>
   map chat_title (chat_history (save_current_chat (py ''id2'') 1
             (run sample_fmt reload_events init_session))) = [py ''q'']"
proof -
  have l: "length long_question = 64" by (simp add: long_question_def)
  have t: "take 50 long_question @ py ''...'' =
             py ''Tell me about the Acme SOW deliverables and milest...''"
    by (simp add: long_question_def)
  have a: "\<forall>x. HumanMessage x \<notin> set [AIMessage (py ''only an answer'')]" by simp
  have b: "\<forall>x. HumanMessage x \<notin> set [AIMessage (py ''hello'')]" by simp
  have n: "\<forall>x. HumanMessage x \<notin> set ([] :: message list)" by simp
  have w2: "working_messages (run sample_fmt two_questions init_session) =
     [] @ HumanMessage long_question # [HumanMessage (py ''second'')]"
    by (simp add: two_questions_run)
  have rw: "working_messages (run sample_fmt reload_events init_session) =
     [] @ HumanMessage (py ''q'') # [HumanMessage (py ''hi''),
      AIMessage (full_response sample_fmt sample_response)]"
    by (simp add: reload_events_run working_messages_def)
  have rid: "saved_chat_id (py ''id2'') (run sample_fmt reload_events init_session) = py ''id1''"
    by (simp add: reload_events_run saved_chat_id_def)
  have ract: "active_chat_id (run sample_fmt reload_events init_session) = Some (py ''id1'')"
    "map chat_id (chat_history (run sample_fmt reload_events init_session)) = [py ''id1'']"
    "map chat_title (chat_history (run sample_fmt reload_events init_session)) = [py ''q'']"
    by (simp_all add: reload_events_run)
  note two = saved_title_from_first_user_message
      [OF refl, where fmt = sample_fmt and es = two_questions
        and ms = "[AIMessage (py ''only an answer'')]"
        and as = "[]" and c = long_question and bs = "[HumanMessage (py ''second'')]"
        and u = "py ''id1''" and t = 0]
  note mid = saved_title_from_first_user_message
      [OF refl, where fmt = sample_fmt and es = "[]"
        and ms = "[]"
        and as = "[AIMessage (py ''hello'')]" and c = "py ''one''"
        and bs = "[HumanMessage (py ''two'')]"
        and u = "[]" and t = 0]
  note rel = saved_title_from_first_user_message
      [OF refl, where fmt = sample_fmt and es = reload_events
        and ms = "[]"
        and as = "[]" and c = "py ''q''"
        and bs = "[HumanMessage (py ''hi''),
                   AIMessage (full_response sample_fmt sample_response)]"
        and u = "py ''id2''" and t = 1]
  have p1: "chat_title_of (first_message [AIMessage (py ''only an answer'')]) = py ''New Chat''"
    using two a by blast
  have p2: "chat_title_of (first_message
      [AIMessage (py ''hello''), HumanMessage (py ''one''), HumanMessage (py ''two'')]) =
     py ''one''"
    using mid b by simp
  have p3: "chat_title_of (first_message (working_messages (run sample_fmt two_questions init_session))) =
     py ''Tell me about the Acme SOW deliverables and milest...''"
    using two w2 n l t by simp
  have p4: "map chat_title
     (chat_history (save_current_chat (py ''id1'') 0 (run sample_fmt two_questions init_session))) =
     [py ''Tell me about the Acme SOW deliverables and milest...'']"
    using two p3 by (simp add: two_questions_run)
  have p5: "\<exists>d. find (\<lambda>d. chat_id d = py ''id1'')
          (chat_history (save_current_chat (py ''id2'') 1
             (run sample_fmt reload_events init_session))) = Some d \<and>
        stored_messages (save_current_chat (py ''id2'') 1
             (run sample_fmt reload_events init_session)) d =
          [HumanMessage (py ''q''), HumanMessage (py ''hi''),
           AIMessage (full_response sample_fmt sample_response)] \<and>
        chat_title d = py ''q''"
    using rel rw n rid by simp
  have p6: "map chat_title (chat_history (save_current_chat (py ''id2'') 1
             (run sample_fmt reload_events init_session))) = [py ''q'']"
    using rel rw ract by simp
  from p1 p2 p3 p4 p5 p6 w2 rw l rid show ?thesis by simp
qed

section \<open>Deleting a chat\<close>

lemma delete_chat_absent:
  "i \<notin> set (map chat_id (chat_history s)) \<Longrightarrow> delete_chat i s = s"
  by (simp add: delete_chat_def)

lemma delete_chat_ids:
  "map chat_id (chat_history (delete_chat i s)) =
     (if i \<in> set (map chat_id (chat_history s)) then map chat_id (pop_chat i (chat_history s))
      else map chat_id (chat_history s))"
  by (simp add: delete_chat_def Let_def)

text \<open>
  The chat ids stay distinct as long as every uuid drawn by the New Chat handler is
  new, which is what \<open>uuid.uuid4()\<close> is for.
\<close>

lemma distinct_ids_save:
  assumes "distinct (map chat_id (chat_history s))" "u \<notin> set (map chat_id (chat_history s))"
  shows "distinct (map chat_id (chat_history (save_current_chat u t s)))"
proof (cases "working_messages s = []")
  case True
  with assms show ?thesis by simp
next
  case False
  show ?thesis
    by (rule save_current_chat_cases [OF False, of u t])
       (use assms in \<open>simp_all add: update_existing_ids\<close>)
qed

lemma distinct_ids_step:
  assumes "distinct (map chat_id (chat_history s))"
    and "\<And>u t. e = NewChat u t \<Longrightarrow> u \<notin> set (map chat_id (chat_history s))"
  shows "distinct (map chat_id (chat_history (step fmt e s)))"
proof (cases e)
  case (NewChat u t)
  then show ?thesis using assms by (simp add: new_chat_def distinct_ids_save)
next
  case (LoadChat i)
  then show ?thesis
    using assms(1) by (auto split: option.splits dest: load_chat_history)
next
  case (DeleteChat i)
  then show ?thesis
    using assms(1) by (simp add: delete_chat_ids pop_chat_keeps_distinct)
next
  case ClearChat
  then show ?thesis using assms(1) by (simp add: clear_current_chat_def)
next
  case (ChatInput p out u)
  then show ?thesis using assms(1) by simp
qed

lemma distinct_ids_run:
  "distinct (map chat_id (chat_history s)) \<Longrightarrow> uuids_fresh fmt es s \<Longrightarrow>
   distinct (map chat_id (chat_history (run fmt es s)))"
proof (induction es arbitrary: s)
  case Nil
  then show ?case by simp
next
  case (Cons e es)
  have "distinct (map chat_id (chat_history (step fmt e s)))"
    using Cons.prems by (intro distinct_ids_step) auto
  with Cons show ?case by simp
qed

text \<open>
  Claim C8. In a session whose saved chats have distinct ids, deleting the chat of an
  id twice gives the same session state as deleting it once, and deleting with an id
  that no saved chat has changes nothing (and is not an error: \<open>delete_chat\<close> has no
  error result).
\<close>

theorem delete_chat_idempotent:
  assumes "distinct (map chat_id (chat_history s))"
  shows "delete_chat i (delete_chat i s) = delete_chat i s \<and>
         (i \<notin> set (map chat_id (chat_history s)) \<longrightarrow> delete_chat i s = s)"
proof -
  have "i \<notin> set (map chat_id (chat_history (delete_chat i s)))"
    using assms pop_chat_distinct [of "chat_history s" i]
    by (simp only: delete_chat_ids split: if_splits) simp
  then have "delete_chat i (delete_chat i s) = delete_chat i s"
    by (rule delete_chat_absent)
  then show ?thesis by (simp add: delete_chat_absent)
qed

theorem delete_chat_idempotent_witness:
  "distinct (map chat_id (chat_history (run sample_fmt sample_loaded init_session))) \<and>
   map chat_id (chat_history (run sample_fmt sample_loaded init_session)) = [py ''id1''] \<and>
   chat_history (delete_chat (py ''id1'') (run sample_fmt sample_loaded init_session)) = [] \<and>
   working_messages (delete_chat (py ''id1'') (run sample_fmt sample_loaded init_session)) = [] \<and>
   delete_chat (py ''id1'')
     (delete_chat (py ''id1'') (run sample_fmt sample_loaded init_session)) =
   delete_chat (py ''id1'') (run sample_fmt sample_loaded init_session) \<and>
   delete_chat (py ''zz'') (run sample_fmt sample_loaded init_session) =
     run sample_fmt sample_loaded init_session"
proof -
  have d: "distinct (map chat_id (chat_history (run sample_fmt sample_loaded init_session)))"
    by (simp add: sample_loaded_run)
  have a: "py ''zz'' \<notin> set (map chat_id (chat_history (run sample_fmt sample_loaded init_session)))"
    by (simp add: sample_loaded_run)
  have p: "pop_chat (py ''id1'') (chat_history (run sample_fmt sample_loaded init_session)) = []"
    using sample_loaded_run(3)
    by (cases "chat_history (run sample_fmt sample_loaded init_session)") auto
  have h: "chat_history (delete_chat (py ''id1'') (run sample_fmt sample_loaded init_session)) = []"
    "working_messages (delete_chat (py ''id1'') (run sample_fmt sample_loaded init_session)) = []"
    using p by (simp_all add: delete_chat_def sample_loaded_run Let_def)
  show ?thesis
    using d a h sample_loaded_run(3)
      delete_chat_idempotent [OF d, of "py ''id1''"]
      delete_chat_idempotent [OF d, of "py ''zz''"]
    by simp
qed

section \<open>The thread id\<close>

lemma submit_thread_id_kept:
  "truthy (thread_id s) \<Longrightarrow> thread_id (submit fmt prompt outcome u s) = thread_id s"
  by (simp add: submit_def Let_def split: sum.splits)

lemma submit_thread_id_failure:
  "thread_id (submit fmt prompt (Inl e) u s) = thread_id s"
  by (simp add: submit_def)

lemma submit_thread_id_first:
  "\<not> truthy (thread_id s) \<Longrightarrow> prompt \<noteq> [] \<Longrightarrow>
   thread_id (submit fmt prompt (Inr r) u s) =
     Some (case r_thread_id r of None \<Rightarrow> u | Some tid \<Rightarrow> tid)"
  by (simp add: submit_def Let_def)

lemma token_sets_truthy: "truthy (thread_id s) \<Longrightarrow> token_sets fmt xs s = 0"
proof (induction xs arbitrary: s)
  case Nil
  show ?case by simp
next
  case (Cons x xs)
  obtain prompt outcome u where x: "x = (prompt, outcome, u)" by (cases x)
  have "truthy (thread_id (submit fmt prompt outcome u s))"
    using Cons.prems by (simp add: submit_thread_id_kept)
  then show ?case using Cons.prems Cons.IH by (simp add: x)
qed

lemma token_sets_le_1: "token_sets fmt xs s \<le> 1"
proof (induction xs arbitrary: s)
  case Nil
  show ?case by simp
next
  case (Cons x xs)
  obtain prompt outcome u where x: "x = (prompt, outcome, u)" by (cases x)
  show ?case
  proof (cases "truthy (thread_id (submit fmt prompt outcome u s))")
    case True
    then show ?thesis by (simp add: x token_sets_truthy)
  next
    case False
    then show ?thesis using Cons.IH by (simp add: x)
  qed
qed

lemma step_thread_id_cleared:
  assumes "truthy (thread_id s)" and "\<And>i. e \<noteq> LoadChat i"
  shows "thread_id (step fmt e s) = thread_id s \<or>
         (thread_id (step fmt e s) = None \<and> working_messages (step fmt e s) = [])"
proof (cases e)
  case (NewChat u t)
  then show ?thesis by (simp add: new_chat_def)
next
  case (LoadChat i)
  with assms(2) show ?thesis by blast
next
  case (DeleteChat i)
  then show ?thesis by (simp add: delete_chat_def Let_def)
next
  case ClearChat
  then show ?thesis by (simp add: clear_current_chat_def)
next
  case (ChatInput p out u)
  then show ?thesis using assms(1) by (simp add: submit_thread_id_kept)
qed

lemma load_chat_thread_id:
  assumes "load_chat i s = Some s'"
  shows "\<exists>c. find (\<lambda>c. chat_id c = i) (chat_history s) = Some c \<and>
             thread_id s' = chat_thread_id c \<and>
             working_messages s' = stored_messages s c"
  by (rule load_chat_Some [OF assms]) (simp add: working_messages_def)

text \<open>
  Claim C4, as the code has it. Line 241 tests the truthiness of the thread id, so the
  empty string counts as no thread id. On a working thread without a thread id a
  successful submission stores the thread id of the response when the response has
  one, and the new uuid otherwise; the stored value is a thread id from then on unless
  it is the empty string. A thread id that is set (truthy) is kept by every later
  submission, whatever its outcome, so along any sequence of submissions the thread
  id goes from unset to set at most once; a failed submission never changes it. The
  New Chat, delete and clear buttons either keep a set thread id or reset it to \<open>None\<close>
  together with the working messages. Loading a chat, the active one included, puts
  the stored messages and the stored thread id of that chat in the place of the
  working ones: what the working thread got since it was last saved is dropped, a
  thread id too.
\<close>

theorem thread_id_set_once:
  "(truthy (thread_id s) \<longrightarrow> thread_id (submit fmt prompt outcome u s) = thread_id s) \<and>
   thread_id (submit fmt prompt (Inl err) u s) = thread_id s \<and>
   (\<not> truthy (thread_id s) \<and> prompt \<noteq> [] \<longrightarrow>
      thread_id (submit fmt prompt (Inr r) u s) =
        Some (case r_thread_id r of None \<Rightarrow> u | Some tid \<Rightarrow> tid)) \<and>
   (\<not> truthy (thread_id s) \<and> prompt \<noteq> [] \<and> u \<noteq> [] \<and> r_thread_id r \<noteq> Some [] \<longrightarrow>
      truthy (thread_id (submit fmt prompt (Inr r) u s))) \<and>
   token_sets fmt xs s \<le> 1 \<and>
   (truthy (thread_id s) \<and> (\<forall>i. e \<noteq> LoadChat i) \<longrightarrow>
      thread_id (step fmt e s) = thread_id s \<or>
      (thread_id (step fmt e s) = None \<and> working_messages (step fmt e s) = [])) \<and>
   (load_chat i s = None \<longrightarrow> step fmt (LoadChat i) s = s) \<and>
   (load_chat i s = Some s' \<longrightarrow>
      step fmt (LoadChat i) s = s' \<and>
      (\<exists>c. find (\<lambda>c. chat_id c = i) (chat_history s) = Some c \<and>
           thread_id s' = chat_thread_id c \<and>
           working_messages s' = stored_messages s c))"
proof -
  have "truthy (thread_id (submit fmt prompt (Inr r) u s))"
    if "\<not> truthy (thread_id s)" "prompt \<noteq> []" "u \<noteq> []" "r_thread_id r \<noteq> Some []"
  proof -
    have "thread_id (submit fmt prompt (Inr r) u s) =
            Some (case r_thread_id r of None \<Rightarrow> u | Some tid \<Rightarrow> tid)"
      using that(1,2) by (rule submit_thread_id_first)
    moreover have "(case r_thread_id r of None \<Rightarrow> u | Some tid \<Rightarrow> tid) \<noteq> []"
      using that(3,4) by (cases "r_thread_id r") auto
    ultimately show ?thesis by (simp add: truthy_def)
  qed
  moreover have "step fmt (LoadChat i) s = s" if "load_chat i s = None"
    using that by simp
  moreover have "step fmt (LoadChat i) s = s'" if "load_chat i s = Some s'"
    using that by simp
  ultimately show ?thesis
    using submit_thread_id_kept [of s fmt prompt outcome u]
      submit_thread_id_failure [of fmt prompt err u s]
      submit_thread_id_first [of s prompt fmt r u]
      token_sets_le_1 [of fmt xs s]
      step_thread_id_cleared [of s e fmt]
      load_chat_thread_id [of i s s']
    by blast
qed

text \<open>
  Two runs against the claim. On the empty session, a first successful submission
  whose response carries the empty string as its thread id stores it, and the second
  successful submission replaces it with the thread id of the second response. And in
  the session of \<open>reload_events\<close>, where the active chat was saved before its thread got a
  thread id, loading that chat again resets the thread id to \<open>None\<close> while the working
  thread has a message; the next successful submission sets another thread id.
\<close>

theorem thread_id_counterexample:
  "successful (py ''hi'', Inr empty_token_response, py ''u1'') \<and>
   successful (py ''more'', Inr other_response, py ''u2'') \<and>
   thread_id init_session = None \<and>
   thread_id (submit sample_fmt (py ''hi'') (Inr empty_token_response) (py ''u1'') init_session) =
     Some [] \<and>
   thread_id
     (submit sample_fmt (py ''more'') (Inr other_response) (py ''u2'')
        (submit sample_fmt (py ''hi'') (Inr empty_token_response) (py ''u1'') init_session)) =
     Some (py ''xyz'') \<and>
   thread_id (run sample_fmt reload_events init_session) = Some (py ''abc'') \<and>
   active_chat_id (run sample_fmt reload_events init_session) = Some (py ''id1'') \<and>
   thread_id (step sample_fmt (LoadChat (py ''id1'')) (run sample_fmt reload_events init_session)) =
     None \<and>
   working_messages
     (step sample_fmt (LoadChat (py ''id1'')) (run sample_fmt reload_events init_session)) =
     [HumanMessage (py ''q'')] \<and>
   thread_id
     (submit sample_fmt (py ''more'') (Inr other_response) (py ''u2'')
        (step sample_fmt (LoadChat (py ''id1'')) (run sample_fmt reload_events init_session))) =
     Some (py ''xyz'')"
proof -
  have a: "thread_id (submit sample_fmt (py ''hi'') (Inr empty_token_response) (py ''u1'') init_session) =
     Some []"
    "thread_id
     (submit sample_fmt (py ''more'') (Inr other_response) (py ''u2'')
        (submit sample_fmt (py ''hi'') (Inr empty_token_response) (py ''u1'') init_session)) =
     Some (py ''xyz'')"
    by (simp_all add: submit_def Let_def truthy_def append_message_def init_session_def
        empty_token_response_def other_response_def)
  have l: "thread_id (step sample_fmt (LoadChat (py ''id1'')) (run sample_fmt reload_events init_session)) =
     None"
    "working_messages
     (step sample_fmt (LoadChat (py ''id1'')) (run sample_fmt reload_events init_session)) =
     [HumanMessage (py ''q'')]"
    by (simp_all add: reload_events_run load_chat_def alloc_def stored_messages_def
          working_messages_def)
  have "\<not> truthy (thread_id (step sample_fmt (LoadChat (py ''id1''))
            (run sample_fmt reload_events init_session)))"
    unfolding l(1) by (simp add: truthy_def)
  then have x: "thread_id
     (submit sample_fmt (py ''more'') (Inr other_response) (py ''u2'')
        (step sample_fmt (LoadChat (py ''id1'')) (run sample_fmt reload_events init_session))) =
     Some (py ''xyz'')"
    by (simp add: submit_thread_id_first other_response_def)
  have i: "thread_id init_session = None" by (simp add: init_session_def)
  have r: "thread_id (run sample_fmt reload_events init_session) = Some (py ''abc'')"
    "active_chat_id (run sample_fmt reload_events init_session) = Some (py ''id1'')"
    by (simp_all add: reload_events_run)
  show ?thesis
    using a l x i r by simp
qed

theorem thread_id_set_once_witness:
  "\<not> truthy (thread_id init_session) \<and> py ''hi'' \<noteq> [] \<and>
   thread_id (submit sample_fmt (py ''hi'') (Inr sample_response) (py ''u1'') init_session) =
     Some (py ''abc'') \<and>
   truthy (thread_id (submit sample_fmt (py ''hi'') (Inr sample_response) (py ''u1'') init_session)) \<and>
   thread_id
     (submit sample_fmt (py ''more'') (Inr other_response) (py ''u2'')
        (submit sample_fmt (py ''hi'') (Inr sample_response) (py ''u1'') init_session)) =
     Some (py ''abc'') \<and>
   thread_id
     (step sample_fmt ClearChat
        (submit sample_fmt (py ''hi'') (Inr sample_response) (py ''u1'') init_session)) = None \<and>
   (\<exists>s'. load_chat (py ''id1'') (run sample_fmt reload_events init_session) = Some s' \<and>
         thread_id s' = None \<and> working_messages s' = [HumanMessage (py ''q'')])"
proof -
  let ?s1 = "submit sample_fmt (py ''hi'') (Inr sample_response) (py ''u1'') init_session"
  let ?s2 = "run sample_fmt reload_events init_session"
  have a: "\<not> truthy (thread_id init_session)" by (simp add: init_session_def truthy_def)
  have b: "py ''hi'' \<noteq> []" by simp
  have c: "r_thread_id sample_response = Some (py ''abc'')" by (simp add: sample_response_def)
  have first: "thread_id ?s1 = Some (py ''abc'')"
    using thread_id_set_once [of init_session sample_fmt "py ''hi''" "Inr sample_response"
        "py ''u1''" "HTTPError []" sample_response "[]" ClearChat "[]" init_session] a b c
    by simp
  then have t: "truthy (thread_id ?s1)" by (simp add: truthy_def)
  have kept: "thread_id (submit sample_fmt (py ''more'') (Inr other_response) (py ''u2'') ?s1) =
                Some (py ''abc'')"
    using thread_id_set_once [of ?s1 sample_fmt "py ''more''" "Inr other_response"
        "py ''u2''" "HTTPError []" other_response "[]" ClearChat "[]" init_session] t first
    by simp
  have "working_messages ?s1 \<noteq> []" by (simp add: submit_Inr_messages)
  then have cleared: "thread_id (step sample_fmt ClearChat ?s1) = None"
    by (simp add: clear_current_chat_def)
  obtain s' where s': "load_chat (py ''id1'') ?s2 = Some s'"
    by (simp add: reload_events_run load_chat_def alloc_def)
  have f: "find (\<lambda>c. chat_id c = py ''id1'') (chat_history ?s2) =
             Some \<lparr>chat_id = py ''id1'', chat_title = py ''q'', chat_messages = 1,
                        chat_thread_id = None, chat_count = 0, chat_timestamp = 0\<rparr>"
    by (simp add: reload_events_run)
  have "thread_id s' = None \<and> working_messages s' = [HumanMessage (py ''q'')]"
    using thread_id_set_once [of ?s2 sample_fmt "py ''hi''" "Inr sample_response"
        "py ''u1''" "HTTPError []" sample_response "[]" ClearChat "py ''id1''" s'] s' f
    by (auto simp: stored_messages_def reload_events_run)
  with s' have ld: "\<exists>s'. load_chat (py ''id1'') ?s2 = Some s' \<and>
         thread_id s' = None \<and> working_messages s' = [HumanMessage (py ''q'')]"
    by blast
  show ?thesis using a b first t kept cleared ld by simp
qed

section \<open>The confidence line\<close>

text \<open>
  Claim C5. The confidence that is annotated is the one of the response: the value
  of its confidence key, and 0 when the key is missing. The confidence text is \<open>High\<close>
  exactly when the confidence is at least 8, \<open>Medium\<close> exactly when it is at least 6
  and below 8, and \<open>Low\<close> exactly when it is below 6; so a response without the key is
  annotated \<open>Low\<close>. The message that a successful submission appends is the assistant
  message made of the answer of the response and of the confidence line with the
  text for the confidence of the response.
\<close>

theorem confidence_buckets:
  "(confidence_text c = py ''High'' \<longleftrightarrow> c \<ge> 8) \<and>
   (confidence_text c = py ''Medium'' \<longleftrightarrow> 6 \<le> c \<and> c < 8) \<and>
   (confidence_text c = py ''Low'' \<longleftrightarrow> c < 6) \<and>
   (r_confidence r = Some c \<longrightarrow> confidence_of r = c) \<and>
   (r_confidence r = None \<longrightarrow>
      confidence_of r = 0 \<and> confidence_text (confidence_of r) = py ''Low'') \<and>
   (r_answer r = Some a \<longrightarrow> answer_of r = a) \<and>
   (r_answer r = None \<longrightarrow> answer_of r = py ''No answer received'') \<and>
   (prompt \<noteq> [] \<longrightarrow>
      last (working_messages (submit fmt prompt (Inr r) u s)) =
        AIMessage (answer_of r @ [10, 10] @ py ''*Confidence: '' @
          confidence_emoji (confidence_of r) @ py '' '' @
          confidence_text (confidence_of r) @ py '' ('' @ fmt (confidence_of r) @ py ''/10)*'')) \<and>
   (prompt \<noteq> [] \<and> r_confidence r = Some c \<and> r_answer r = Some a \<longrightarrow>
      last (working_messages (submit fmt prompt (Inr r) u s)) =
        AIMessage (a @ [10, 10] @ py ''*Confidence: '' @ confidence_emoji c @ py '' '' @
          confidence_text c @ py '' ('' @ fmt c @ py ''/10)*''))"
proof -
  have h: "confidence_text c = py ''High'' \<longleftrightarrow> c \<ge> 8"
    by (simp add: confidence_text_def)
  have m: "confidence_text c = py ''Medium'' \<longleftrightarrow> 6 \<le> c \<and> c < 8"
    by (auto simp: confidence_text_def)
  have l: "confidence_text c = py ''Low'' \<longleftrightarrow> c < 6"
    by (auto simp: confidence_text_def)
  have s: "confidence_of r = c" if "r_confidence r = Some c"
    using that by (simp add: confidence_of_def)
  have n: "confidence_of r = 0 \<and> confidence_text (confidence_of r) = py ''Low''"
    if "r_confidence r = None"
    using that by (simp add: confidence_of_def confidence_text_def)
  have a1: "answer_of r = a" if "r_answer r = Some a"
    using that by (simp add: answer_of_def)
  have a2: "answer_of r = py ''No answer received''" if "r_answer r = None"
    using that by (simp add: answer_of_def)
  have msg: "last (working_messages (submit fmt prompt (Inr r) u s)) =
        AIMessage (answer_of r @ [10, 10] @ py ''*Confidence: '' @
          confidence_emoji (confidence_of r) @ py '' '' @
          confidence_text (confidence_of r) @ py '' ('' @ fmt (confidence_of r) @ py ''/10)*'')"
    if "prompt \<noteq> []"
    using that by (simp add: submit_Inr_messages full_response_def)
  have msg': "last (working_messages (submit fmt prompt (Inr r) u s)) =
        AIMessage (a @ [10, 10] @ py ''*Confidence: '' @ confidence_emoji c @ py '' '' @
          confidence_text c @ py '' ('' @ fmt c @ py ''/10)*'')"
    if "prompt \<noteq> []" "r_confidence r = Some c" "r_answer r = Some a"
    using msg [OF that(1)] s [OF that(2)] a1 [OF that(3)] by simp
  show ?thesis
    using h m l s n a1 a2 msg msg' by blast
qed

theorem confidence_buckets_witness:
  "confidence_text 8 = py ''High'' \<and>
   confidence_text 6 = py ''Medium'' \<and>
   confidence_text (59 / 10) = py ''Low'' \<and>
   r_confidence no_confidence_response = None \<and>
   r_answer no_confidence_response = Some (py ''ok'') \<and>
   confidence_text (confidence_of no_confidence_response) = py ''Low'' \<and>
   py ''hi'' \<noteq> [] \<and>
   last (working_messages
     (submit sample_fmt (py ''hi'') (Inr no_confidence_response) (py ''u1'') init_session)) =
     AIMessage (py ''ok'' @ [10, 10] @ py ''*Confidence: '' @ [128308] @ py '' Low (9.0/10)*'') \<and>
   r_confidence sample_response = Some 9 \<and>
   r_answer sample_response = Some (py ''ok'') \<and>
   confidence_of sample_response = 9 \<and>
   last (working_messages
     (submit sample_fmt (py ''hi'') (Inr sample_response) (py ''u1'') init_session)) =
     AIMessage (py ''ok'' @ [10, 10] @ py ''*Confidence: '' @ [128994] @ py '' High (9.0/10)*'')"
proof -
  have n: "r_confidence no_confidence_response = None"
    "r_answer no_confidence_response = Some (py ''ok'')"
    by (simp_all add: no_confidence_response_def)
  have k: "r_confidence sample_response = Some 9" "r_answer sample_response = Some (py ''ok'')"
    by (simp_all add: sample_response_def)
  have p: "py ''hi'' \<noteq> []" by simp
  note b = confidence_buckets [of _ no_confidence_response "py ''ok''" "py ''hi''" sample_fmt
      "py ''u1''" init_session]
  note b9 = confidence_buckets [of 9 sample_response "py ''ok''" "py ''hi''" sample_fmt
      "py ''u1''" init_session]
  have h: "confidence_text 8 = py ''High''" using b [of 8] by simp
  have m: "confidence_text 6 = py ''Medium''" using b [of 6] by simp
  have l: "confidence_text (59 / 10) = py ''Low''" using b [of "59 / 10"] by simp
  have z: "confidence_of no_confidence_response = 0"
    "confidence_text (confidence_of no_confidence_response) = py ''Low''"
    using b [of 0] n by simp_all
  have e: "confidence_emoji 0 = [128308]" "confidence_emoji 9 = [128994]"
    by (simp_all add: confidence_emoji_def)
  have a: "answer_of no_confidence_response = py ''ok''"
    using b [of 0] n by simp
  have low: "last (working_messages
     (submit sample_fmt (py ''hi'') (Inr no_confidence_response) (py ''u1'') init_session)) =
     AIMessage (py ''ok'' @ [10, 10] @ py ''*Confidence: '' @ [128308] @ py '' Low (9.0/10)*'')"
    using b [of 0] p by (simp add: z e a sample_fmt_def)
  have c9: "confidence_of sample_response = 9" using b9 k by simp
  have t9: "confidence_text 9 = py ''High''" using b9 by simp
  have high: "last (working_messages
     (submit sample_fmt (py ''hi'') (Inr sample_response) (py ''u1'') init_session)) =
     AIMessage (py ''ok'' @ [10, 10] @ py ''*Confidence: '' @ [128994] @ py '' High (9.0/10)*'')"
    using b9 p k by (simp add: e t9 sample_fmt_def)
  show ?thesis using h m l n z p low k c9 high by simp
qed

section \<open>The prompt guard\<close>

text \<open>
  Claim C7, as the code has it. Line 184 tests the truthiness of the prompt and trims
  nothing: with the empty prompt (or none) the handler does not run, so the session
  state is what it was and no query is made; with any other prompt, one of whitespace
  only included, the query is made and the user's message is appended.
\<close>

theorem empty_prompt_is_noop:
  "submit fmt [] outcome u s = s \<and>
   (query_request prompt s = None \<longleftrightarrow> prompt = []) \<and>
   (working_messages (submit fmt prompt outcome u s) = working_messages s \<longleftrightarrow> prompt = [])"
proof -
  have "working_messages (submit fmt prompt outcome u s) \<noteq> working_messages s"
    if "prompt \<noteq> []"
  proof -
    have "length (working_messages (submit fmt prompt outcome u s)) > length (working_messages s)"
      using that by (cases outcome) (simp_all add: submit_Inl submit_Inr_messages)
    then show ?thesis by auto
  qed
  then show ?thesis by (auto simp: query_request_def)
qed

text \<open>
  A prompt of one space is empty after trimming, and yet the query is made and the
  message is appended.
\<close>

theorem blank_prompt_counterexample:
  "spec_trim [32] = [] \<and>
   query_request [32] init_session =
     Some \<lparr>question = [32], max_iterations = 3, params_thread_id = None\<rparr> \<and>
   working_messages init_session = [] \<and>
   working_messages (submit sample_fmt [32] (Inl (HTTPError [])) [] init_session) =
     [HumanMessage [32]]"
  by (simp add: spec_trim_def is_space_def query_request_def truthy_def submit_Inl
        working_messages_def append_message_def init_session_def)

end
